theory Spec2Isabelle
  imports Main "HOL-Library.Sublist"
begin

section \<open>The agent runtime of \<^verbatim>\<open>backend/agent/run.py\<close>\<close>

text \<open>
  The development embeds the class-based runner of \<^verbatim>\<open>backend/agent/run.py\<close>
  (\<^verbatim>\<open>AgentConfig\<close>, \<^verbatim>\<open>ToolManager\<close>, \<^verbatim>\<open>MCPManager\<close>,
  \<^verbatim>\<open>PromptManager\<close>, \<^verbatim>\<open>MessageManager\<close>, \<^verbatim>\<open>AgentRunner\<close>).
  The file in the repository still carries the markers of an unfinished merge; the
  class-based code is the side of each conflict that follows the \<^verbatim>\<open>=======\<close>
  marker, together with the lines both sides share.

  Conventions of the embedding.
  \<^item> Python values that come from JSON (chunks, message contents, the agent definition)
    are values of the datatype \<open>json\<close>; a \<^verbatim>\<open>dict\<close> is an association list
    with \<^verbatim>\<open>d.get(k)\<close> read by \<open>map_of\<close>. Numbers are integers: the runner only
    tests numbers for truth, and a float is falsy exactly when it is zero, as an integer is.
  \<^item> A string is the list of the bytes of its UTF-8 encoding (\<open>string\<close>).
  \<^item> Every \<^verbatim>\<open>raise\<close> and every \<^verbatim>\<open>except\<close> of the source is a branch of the
    model.
  \<^item> External collaborators (billing, the thread-execution engine, the tracing client,
    \<^verbatim>\<open>json.loads\<close>, \<^verbatim>\<open>json.dumps\<close>, the clock) are parameters.
\<close>

subsection \<open>Python values\<close>

datatype json =
    JNull
  | JBool bool
  | JInt int
  | JStr string
  | JList "json list"
  | JObj "(string \<times> json) list"

text \<open>Truth value testing (\<^verbatim>\<open>if v:\<close>, \<^verbatim>\<open>not v\<close>).\<close>

fun truthy :: "json \<Rightarrow> bool" where
  "truthy JNull = False"
| "truthy (JBool b) = b"
| "truthy (JInt i) = (i \<noteq> 0)"
| "truthy (JStr s) = (s \<noteq> [])"
| "truthy (JList xs) = (xs \<noteq> [])"
| "truthy (JObj d) = (d \<noteq> [])"

text \<open>\<^verbatim>\<open>type(v).__name__\<close>, as it appears in the message of an \<^verbatim>\<open>AttributeError\<close>.\<close>

fun py_type_name :: "json \<Rightarrow> string" where
  "py_type_name JNull = ''NoneType''"
| "py_type_name (JBool b) = ''bool''"
| "py_type_name (JInt i) = ''int''"
| "py_type_name (JStr s) = ''str''"
| "py_type_name (JList xs) = ''list''"
| "py_type_name (JObj d) = ''dict''"

text \<open>\<^verbatim>\<open>d.get(k, default)\<close> on a dict.\<close>

definition dict_get :: "(string \<times> json) list \<Rightarrow> string \<Rightarrow> json \<Rightarrow> json" where
  "dict_get d k dflt = (case map_of d k of None \<Rightarrow> dflt | Some v \<Rightarrow> v)"

subsection \<open>Strings\<close>

text \<open>
  \<^verbatim>\<open>s.lower()\<close>. Python lower-cases code points. The capital letters of ASCII become
  the small letters. Two code points outside ASCII have a lower-case form with an ASCII
  letter in it: U+212A KELVIN SIGN (the bytes \<^verbatim>\<open>E2 84 AA\<close>) becomes \<^verbatim>\<open>k\<close>, and
  U+0130 LATIN CAPITAL LETTER I WITH DOT ABOVE (the bytes \<^verbatim>\<open>C4 B0\<close>) becomes
  \<^verbatim>\<open>i\<close> followed by U+0307 COMBINING DOT ABOVE (the bytes \<^verbatim>\<open>CC 87\<close>). In UTF-8
  the bytes \<^verbatim>\<open>E2\<close> and \<^verbatim>\<open>C4\<close> only occur as the first byte of a code point, so
  these byte sequences are these code points wherever they occur. Every other code point
  outside ASCII has a lower-case form outside ASCII, whose bytes are all above
  \<^verbatim>\<open>7F\<close>: the model keeps the bytes of the code point instead, so that the lower-cased
  string has the ASCII characters of Python's, in the same order and with a byte above
  \<^verbatim>\<open>7F\<close> between two of them exactly where Python has one.
\<close>

definition lower_char :: "char \<Rightarrow> char" where
  "lower_char c =
     (let n = (of_char c :: int) in if 65 \<le> n \<and> n \<le> 90 then char_of (n + 32) else c)"

definition kelvin_sign :: string where
  "kelvin_sign = [CHR 0xE2, CHR 0x84, CHR 0xAA]"

definition capital_i_with_dot :: string where
  "capital_i_with_dot = [CHR 0xC4, CHR 0xB0]"

definition small_i_with_dot :: string where
  "small_i_with_dot = [CHR ''i'', CHR 0xCC, CHR 0x87]"

fun lower :: "string \<Rightarrow> string" where
  "lower (c # d # e # cs) =
     (if [c, d, e] = kelvin_sign then CHR ''k'' # lower cs
      else if [c, d] = capital_i_with_dot then small_i_with_dot @ lower (e # cs)
      else lower_char c # lower (d # e # cs))"
| "lower [c, d] =
     (if [c, d] = capital_i_with_dot then small_i_with_dot else [lower_char c, lower_char d])"
| "lower [c] = [lower_char c]"
| "lower [] = []"

declare lower.simps(1,2) [simp del]

fun starts_with :: "string \<Rightarrow> string \<Rightarrow> bool" where
  "starts_with [] hay = True"
| "starts_with (n # ns) [] = False"
| "starts_with (n # ns) (h # hs) = (n = h \<and> starts_with ns hs)"

text \<open>\<^verbatim>\<open>needle in hay\<close> on strings: a left-to-right search for the needle.\<close>

fun contains :: "string \<Rightarrow> string \<Rightarrow> bool" where
  "contains needle [] = (needle = [])"
| "contains needle (h # hs) = (starts_with needle (h # hs) \<or> contains needle hs)"

text \<open>
  An occurrence of a word in a name whatever the case of its letters, stated without
  \<open>lower\<close>, as the reference for the case-insensitive search. \<open>case_variant w t\<close>:
  the string \<open>w\<close> is the word \<open>t\<close> in which some small letters are replaced by their
  capital letters, given by the table \<open>zip small_letters capital_letters\<close>, and some
  \<^verbatim>\<open>k\<close> by the Kelvin sign. \<open>occurs_ignoring_case t name\<close>: some substring of
  \<open>name\<close> is a case variant of \<open>t\<close>.
\<close>

definition small_letters :: string where
  "small_letters = ''abcdefghijklmnopqrstuvwxyz''"

definition capital_letters :: string where
  "capital_letters = ''ABCDEFGHIJKLMNOPQRSTUVWXYZ''"

inductive case_variant :: "string \<Rightarrow> string \<Rightarrow> bool" where
  empty: "case_variant [] []"
| same: "case_variant w t \<Longrightarrow> case_variant (c # w) (c # t)"
| capital: "case_variant w t \<Longrightarrow> (l, u) \<in> set (zip small_letters capital_letters) \<Longrightarrow>
            case_variant (u # w) (l # t)"
| kelvin: "case_variant w t \<Longrightarrow> case_variant (kelvin_sign @ w) (CHR ''k'' # t)"

definition occurs_ignoring_case :: "string \<Rightarrow> string \<Rightarrow> bool" where
  "occurs_ignoring_case t name = (\<exists>p w s. name = p @ w @ s \<and> case_variant w t)"

text \<open>The characters of the words the runner searches for: small letters, digits, \<^verbatim>\<open>-\<close> and \<^verbatim>\<open>.\<close>\<close>

definition plain :: "char \<Rightarrow> bool" where
  "plain c = (c \<in> set ''abcdefghijklmnopqrstuvwxyz0123456789-.'')"

subsection \<open>AgentConfig\<close>

text \<open>
  The dataclass \<^verbatim>\<open>AgentConfig\<close>. The field \<open>agent_config\<close> holds a reference to the
  agent-definition dict (an address of the object store below), the field \<open>trace\<close> a
  handle of the tracing client; both are \<^verbatim>\<open>Optional\<close>.
\<close>

type_synonym ref = nat
type_synonym trace_handle = nat

record AgentConfig =
  thread_id :: string
  project_id :: string
  stream :: bool
  native_max_auto_continues :: int
  max_iterations :: int
  model_name :: string
  enable_thinking :: "bool option"
  reasoning_effort :: "string option"
  enable_context_manager :: bool
  agent_config :: "ref option"
  trace :: "trace_handle option"
  is_agent_builder :: "bool option"
  target_agent_id :: "string option"

text \<open>\<^verbatim>\<open>AgentRunner.get_max_tokens\<close>\<close>

definition get_max_tokens :: "AgentConfig \<Rightarrow> int option" where
  "get_max_tokens cfg =
     (if contains ''sonnet'' (lower (model_name cfg)) then Some 8192
      else if contains ''gpt-4'' (lower (model_name cfg)) then Some 4096
      else if contains ''gemini-2.5-pro'' (lower (model_name cfg)) then Some 64000
      else if contains ''kimi-k2'' (lower (model_name cfg)) then Some 8192
      else None)"

subsection \<open>Disabled tools\<close>

text \<open>
  The inner function \<^verbatim>\<open>is_tool_enabled\<close> of
  \<^verbatim>\<open>AgentRunner._get_disabled_tools_from_config\<close>. It returns the Python value the
  source returns: the entry itself when it is a bool, the value stored under
  \<^verbatim>\<open>'enabled'\<close> when the entry is a dict (whatever its type), and \<^verbatim>\<open>True\<close>
  otherwise. Nothing in its body can raise on a dict \<open>raw_tools\<close>.
\<close>

definition is_tool_enabled :: "(string \<times> json) list \<Rightarrow> string \<Rightarrow> json" where
  "is_tool_enabled raw_tools tool_name =
     (case dict_get raw_tools tool_name (JBool True) of
        JBool b \<Rightarrow> JBool b
      | JObj d \<Rightarrow> dict_get d ''enabled'' (JBool True)
      | _ \<Rightarrow> JBool True)"

definition all_tools :: "string list" where
  "all_tools =
     [''sb_shell_tool'', ''sb_files_tool'', ''sb_deploy_tool'', ''sb_expose_tool'',
      ''web_search_tool'', ''sb_vision_tool'', ''sb_presentation_tool'', ''sb_image_edit_tool'',
      ''sb_sheets_tool'', ''sb_web_dev_tool'', ''data_providers_tool'', ''browser_tool'',
      ''agent_config_tool'', ''mcp_search_tool'', ''credential_profile_tool'',
      ''workflow_tool'', ''trigger_tool'']"

text \<open>
  \<^verbatim>\<open>AgentRunner._get_disabled_tools_from_config\<close>, as a function of the object
  \<^verbatim>\<open>self.config.agent_config\<close> refers to (\<open>None\<close> when the field is \<^verbatim>\<open>None\<close>).
\<close>

definition get_disabled_tools_from_config :: "(string \<times> json) list option \<Rightarrow> string list" where
  "get_disabled_tools_from_config ac_opt =
     (case ac_opt of
        None \<Rightarrow> []
      | Some ac \<Rightarrow>
          if ac = [] \<or> map_of ac ''agentpress_tools'' = None then []
          else
            (case map_of ac ''agentpress_tools'' of
               Some (JObj raw_tools) \<Rightarrow>
                 if truthy (dict_get ac ''is_suna_default'' (JBool False)) \<and> raw_tools = [] then []
                 else
                   (let disabled_tools =
                          filter (\<lambda>tool_name. \<not> truthy (is_tool_enabled raw_tools tool_name)) all_tools
                    in if ''sb_presentation_tool'' \<in> set disabled_tools
                       then disabled_tools @ [''sb_presentation_outline_tool'', ''sb_presentation_tool_v2'']
                       else disabled_tools)
             | _ \<Rightarrow> []))"

subsection \<open>Library functions and collaborators\<close>

text \<open>
  The Python library functions the runner calls on data, as parameters:
  \<^verbatim>\<open>json.loads\<close> (\<open>None\<close> when it raises \<^verbatim>\<open>JSONDecodeError\<close>),
  \<^verbatim>\<open>json.dumps(_, indent=2)\<close>, and \<^verbatim>\<open>str(_)\<close> for the values other than
  strings that an f-string formats.
\<close>

record pylib =
  json_loads :: "string \<Rightarrow> json option"
  json_dumps :: "json \<Rightarrow> string"
  py_str :: "json \<Rightarrow> string"

text \<open>\<^verbatim>\<open>f"{v}"\<close>\<close>

definition format_value :: "pylib \<Rightarrow> json \<Rightarrow> string" where
  "format_value L v = (case v of JStr s \<Rightarrow> s | _ \<Rightarrow> py_str L v)"

text \<open>
  \<^verbatim>\<open>x if isinstance(x, dict) else json.loads(x)\<close> and
  \<^verbatim>\<open>if isinstance(x, str): x = json.loads(x)\<close>; \<open>None\<close> when
  \<^verbatim>\<open>json.loads\<close> raises (a \<^verbatim>\<open>JSONDecodeError\<close> on a string that is not JSON, a
  \<^verbatim>\<open>TypeError\<close> on a value that is not a string).
\<close>

definition dict_or_loads :: "pylib \<Rightarrow> json \<Rightarrow> json option" where
  "dict_or_loads L x = (case x of JObj d \<Rightarrow> Some (JObj d) | JStr s \<Rightarrow> json_loads L s | _ \<Rightarrow> None)"

definition loads_if_str :: "pylib \<Rightarrow> json \<Rightarrow> json option" where
  "loads_if_str L x = (case x of JStr s \<Rightarrow> json_loads L s | _ \<Rightarrow> Some x)"

subsection \<open>The persisted message store\<close>

text \<open>
  The table \<^verbatim>\<open>messages\<close>: rows with a thread id, a type, a content, a creation time
  and a message id. A query
  \<^verbatim>\<open>select('*').eq('thread_id', t).in_('type', tys).order('created_at', desc=True).limit(1)\<close>
  returns the row of greatest creation time among those of the thread and the types; among
  rows of equal time (an order the database leaves open) the model takes the first in the
  table. Database operations are taken to succeed.
\<close>

record message_row =
  row_thread_id :: string
  row_type :: string
  row_content :: json
  row_created_at :: int
  message_id :: string

fun latest_row :: "message_row list \<Rightarrow> message_row option" where
  "latest_row [] = None"
| "latest_row (r # rs) =
     (case latest_row rs of
        None \<Rightarrow> Some r
      | Some r' \<Rightarrow> if row_created_at r < row_created_at r' then Some r' else Some r)"

definition select_latest :: "message_row list \<Rightarrow> string \<Rightarrow> string list \<Rightarrow> message_row option" where
  "select_latest rows tid tys =
     latest_row (filter (\<lambda>r. row_thread_id r = tid \<and> row_type r \<in> set tys) rows)"

text \<open>\<^verbatim>\<open>delete().eq('message_id', mid)\<close>\<close>

definition delete_message :: "message_row list \<Rightarrow> string \<Rightarrow> message_row list" where
  "delete_message rows mid = filter (\<lambda>r. message_id r \<noteq> mid) rows"

subsection \<open>MessageManager\<close>

definition text_block :: "string \<Rightarrow> json" where
  "text_block t = JObj [(''type'', JStr ''text''), (''text'', JStr t)]"

definition image_block :: "(string \<times> json) list \<Rightarrow> json" where
  "image_block image_url = JObj [(''type'', JStr ''image_url''), (''image_url'', JObj image_url)]"

text \<open>
  The first \<^verbatim>\<open>try\<close> block of \<^verbatim>\<open>MessageManager.build_temporary_message\<close>: the
  blocks added for the latest \<^verbatim>\<open>browser_state\<close> row. An exception (the content does not
  parse, or is not a dict) can only occur before the first block is added, and is
  swallowed by the \<^verbatim>\<open>except\<close>.
\<close>

definition browser_state_blocks :: "pylib \<Rightarrow> string \<Rightarrow> json \<Rightarrow> json list" where
  "browser_state_blocks L mn content =
     (case loads_if_str L content of
        Some (JObj browser_content) \<Rightarrow>
          (let screenshot_base64 = dict_get browser_content ''screenshot_base64'' JNull;
               screenshot_url = dict_get browser_content ''image_url'' JNull;
               browser_state_text =
                 filter (\<lambda>(k, v). k \<noteq> ''screenshot_base64'' \<and> k \<noteq> ''image_url'') browser_content
           in (if browser_state_text \<noteq> []
               then [text_block (''The following is the current state of the browser:\<newline>''
                                 @ json_dumps L (JObj browser_state_text))]
               else [])
              @ (if contains ''gemini'' (lower mn) \<or> contains ''anthropic'' (lower mn)
                    \<or> contains ''openai'' (lower mn)
                 then (if truthy screenshot_url
                       then [image_block [(''url'', screenshot_url), (''format'', JStr ''image/png'')]]
                       else if truthy screenshot_base64
                       then [image_block
                               [(''url'', JStr (''data:image/png;base64,''
                                               @ format_value L screenshot_base64))]]
                       else [])
                 else []))
      | _ \<Rightarrow> [])"

text \<open>
  The second \<^verbatim>\<open>try\<close> block, for the latest \<^verbatim>\<open>image_context\<close> row: the blocks
  added and whether the statement that deletes the row is reached. The content is taken
  as it is when it is a dict and parsed otherwise; \<^verbatim>\<open>.get\<close> on a parsed value that is
  not a dict raises \<^verbatim>\<open>AttributeError\<close>, which the \<^verbatim>\<open>except\<close> swallows before the
  delete.
\<close>

definition image_context_blocks :: "pylib \<Rightarrow> json \<Rightarrow> json list \<times> bool" where
  "image_context_blocks L content =
     (case dict_or_loads L content of
        Some (JObj image_context_content) \<Rightarrow>
          (let base64_image = dict_get image_context_content ''base64'' JNull;
               mime_type = dict_get image_context_content ''mime_type'' JNull;
               file_path = dict_get image_context_content ''file_path'' (JStr ''unknown file'')
           in (if truthy base64_image \<and> truthy mime_type
               then [text_block (''Here is the image you requested to see: '' @ [CHR 0x27]
                                 @ format_value L file_path @ [CHR 0x27]),
                     image_block [(''url'', JStr (''data:'' @ format_value L mime_type @ '';base64,''
                                                  @ format_value L base64_image))]]
               else [],
               True))
      | _ \<Rightarrow> ([], False))"

text \<open>
  \<^verbatim>\<open>MessageManager.build_temporary_message\<close>: the temporary message (\<open>None\<close> when no
  block was assembled) and the message store it leaves.
\<close>

definition build_temporary_message ::
  "pylib \<Rightarrow> string \<Rightarrow> string \<Rightarrow> message_row list \<Rightarrow> json option \<times> message_row list" where
  "build_temporary_message L tid mn rows =
     (let browser =
            (case select_latest rows tid [''browser_state''] of
               None \<Rightarrow> []
             | Some r \<Rightarrow> browser_state_blocks L mn (row_content r));
          (image, rows') =
            (case select_latest rows tid [''image_context''] of
               None \<Rightarrow> ([], rows)
             | Some r \<Rightarrow>
                 (case image_context_blocks L (row_content r) of
                    (blocks, reached_delete) \<Rightarrow>
                      (blocks, if reached_delete then delete_message rows (message_id r) else rows)));
          temp_message_content_list = browser @ image
      in (if temp_message_content_list \<noteq> []
          then Some (JObj [(''role'', JStr ''user''), (''content'', JList temp_message_content_list)])
          else None,
          rows'))"

subsection \<open>The thread-execution engine and the billing service\<close>

text \<open>
  What \<^verbatim>\<open>ThreadManager.run_thread\<close> is called with. The keyword arguments that share
  a name with a field of \<^verbatim>\<open>AgentConfig\<close> carry the prefix \<open>rt_\<close>; the argument
  \<^verbatim>\<open>generation\<close> (a tracing span) is left out.
\<close>

record ProcessorConfig =
  xml_tool_calling :: bool
  native_tool_calling :: bool
  execute_tools :: bool
  execute_on_stream :: bool
  tool_execution_strategy :: string
  xml_adding_strategy :: string

record run_thread_args =
  rt_thread_id :: string
  system_prompt :: json
  rt_stream :: bool
  llm_model :: string
  llm_temperature :: int
  llm_max_tokens :: "int option"
  tool_choice :: string
  max_xml_tool_calls :: int
  temporary_message :: "json option"
  processor_config :: ProcessorConfig
  rt_native_max_auto_continues :: int
  include_xml_examples :: bool
  rt_enable_thinking :: "bool option"
  rt_reasoning_effort :: "string option"
  rt_enable_context_manager :: bool

text \<open>
  What the call gives back: it raises (with \<^verbatim>\<open>str(e)\<close>), it returns a value that is
  not an asynchronous iterator, or it returns a stream. A stream is the finite list of
  what iterating it produces: chunks, and possibly an exception that ends it.
\<close>

datatype stream_event = Chunk json | StreamRaises string

datatype response = RunThreadRaises string | Returned json | Stream "stream_event list"

text \<open>
  The collaborators of the run loop, each indexed by the number of the iteration that
  calls it (they are services outside the program and may answer differently each time):
  \<^verbatim>\<open>check_billing_status\<close> gives \<^verbatim>\<open>can_run\<close> and \<^verbatim>\<open>message\<close>;
  \<^verbatim>\<open>run_thread\<close> gives its response and the message store as the engine leaves it (the
  engine persists the assistant and tool messages it produces).
\<close>

record collaborators =
  check_billing_status :: "nat \<Rightarrow> bool \<times> string"
  run_thread :: "nat \<Rightarrow> run_thread_args \<Rightarrow> message_row list \<Rightarrow> response \<times> message_row list"

subsection \<open>Consuming the stream\<close>

text \<open>The variables of one iteration that the chunks update.\<close>

record stream_state =
  last_tool_call :: json
  agent_should_terminate :: bool
  error_detected :: bool
  full_response :: string

definition initial_stream_state :: stream_state where
  "initial_stream_state =
     \<lparr>last_tool_call = JNull, agent_should_terminate = False, error_detected = False,
      full_response = []\<rparr>"

text \<open>
  The \<^verbatim>\<open>try\<close> block run on a chunk of type \<^verbatim>\<open>status\<close>. Any exception in it is
  swallowed (\<^verbatim>\<open>except Exception: pass\<close>), keeping the assignments made before it.
\<close>

definition status_chunk_update :: "pylib \<Rightarrow> (string \<times> json) list \<Rightarrow> stream_state \<Rightarrow> stream_state" where
  "status_chunk_update L chunk st =
     (case loads_if_str L (dict_get chunk ''metadata'' (JObj [])) of
        Some (JObj metadata) \<Rightarrow>
          if truthy (dict_get metadata ''agent_should_terminate'' JNull)
          then
            (let st1 = st\<lparr>agent_should_terminate := True\<rparr>
             in case loads_if_str L (dict_get chunk ''content'' (JObj [])) of
                  Some (JObj content) \<Rightarrow>
                    if truthy (dict_get content ''function_name'' JNull)
                    then st1\<lparr>last_tool_call := dict_get content ''function_name'' JNull\<rparr>
                    else if truthy (dict_get content ''xml_tag_name'' JNull)
                    then st1\<lparr>last_tool_call := dict_get content ''xml_tag_name'' JNull\<rparr>
                    else st1
                | _ \<Rightarrow> st1)
          else st
      | _ \<Rightarrow> st)"

text \<open>
  The \<^verbatim>\<open>try\<close> block run on a chunk of type \<^verbatim>\<open>assistant\<close> that has a
  \<^verbatim>\<open>content\<close>. \<^verbatim>\<open>full_response += assistant_text\<close> raises \<^verbatim>\<open>TypeError\<close> unless the
  text is a string, so the scan for the closing markers is reached with a string only.
  Inside the outer test the last \<^verbatim>\<open>elif\<close> of the source always holds when it is
  reached.
\<close>

definition assistant_chunk_update :: "pylib \<Rightarrow> (string \<times> json) list \<Rightarrow> stream_state \<Rightarrow> stream_state" where
  "assistant_chunk_update L chunk st =
     (case loads_if_str L (dict_get chunk ''content'' (JStr ''{}'')) of
        Some (JObj assistant_content_json) \<Rightarrow>
          (case dict_get assistant_content_json ''content'' (JStr []) of
             JStr assistant_text \<Rightarrow>
               (let st1 = st\<lparr>full_response := full_response st @ assistant_text\<rparr>
                in if contains ''</ask>'' assistant_text \<or> contains ''</complete>'' assistant_text
                      \<or> contains ''</web-browser-takeover>'' assistant_text
                   then st1\<lparr>last_tool_call :=
                          JStr (if contains ''</ask>'' assistant_text then ''ask''
                                else if contains ''</complete>'' assistant_text then ''complete''
                                else ''web-browser-takeover'')\<rparr>
                   else st1)
           | _ \<Rightarrow> st)
      | _ \<Rightarrow> st)"

text \<open>
  The body of \<^verbatim>\<open>async for chunk in response\<close>, up to the \<^verbatim>\<open>yield chunk\<close> that ends
  it on every path that does not raise. On a chunk that is not a dict,
  \<^verbatim>\<open>chunk.get\<close> raises \<^verbatim>\<open>AttributeError\<close>: the result is \<open>Inl\<close> of its message.
\<close>

definition process_chunk :: "pylib \<Rightarrow> json \<Rightarrow> stream_state \<Rightarrow> string + stream_state" where
  "process_chunk L chunk st =
     (case chunk of
        JObj c \<Rightarrow>
          if dict_get c ''type'' JNull = JStr ''status'' \<and> dict_get c ''status'' JNull = JStr ''error''
          then Inr (st\<lparr>error_detected := True\<rparr>)
          else
            (let st1 = (if dict_get c ''type'' JNull = JStr ''status''
                        then status_chunk_update L c st else st);
                 st2 = (if dict_get c ''type'' JNull = JStr ''assistant'' \<and> map_of c ''content'' \<noteq> None
                        then assistant_chunk_update L c st1 else st1)
             in Inr st2)
      | _ \<Rightarrow> Inl ([CHR 0x27] @ py_type_name chunk @ [CHR 0x27] @ '' object has no attribute ''
                  @ [CHR 0x27] @ ''get'' @ [CHR 0x27]))"

text \<open>
  The whole \<^verbatim>\<open>async for\<close>: the exception that ended it, if any, the variables after it
  and the chunks it yielded, in order.
\<close>

fun consume_stream ::
  "pylib \<Rightarrow> stream_event list \<Rightarrow> stream_state \<Rightarrow> json list \<Rightarrow> string option \<times> stream_state \<times> json list" where
  "consume_stream L [] st out = (None, st, out)"
| "consume_stream L (StreamRaises msg # rest) st out = (Some msg, st, out)"
| "consume_stream L (Chunk chunk # rest) st out =
     (case process_chunk L chunk st of
        Inl msg \<Rightarrow> (Some msg, st, out)
      | Inr st' \<Rightarrow> consume_stream L rest st' (out @ [chunk]))"

subsection \<open>The run loop\<close>

text \<open>
  The state of the generator at the head of the \<^verbatim>\<open>while\<close> loop: the two loop variables,
  the message store, the chunks yielded so far and the calls of \<^verbatim>\<open>run_thread\<close> made so
  far.
\<close>

record loop_state =
  iteration_count :: nat
  continue_execution :: bool
  store :: "message_row list"
  yielded :: "json list"
  run_thread_calls :: "run_thread_args list"

definition status_chunk :: "string \<Rightarrow> string \<Rightarrow> json" where
  "status_chunk status msg =
     JObj [(''type'', JStr ''status''), (''status'', JStr status), (''message'', JStr msg)]"

text \<open>
  \<^verbatim>\<open>isinstance(response, dict) and "status" in response and response["status"] == "error"\<close>
\<close>

definition error_shaped :: "json \<Rightarrow> bool" where
  "error_shaped v = (case v of JObj d \<Rightarrow> map_of d ''status'' = Some (JStr ''error'') | _ \<Rightarrow> False)"

definition make_run_thread_args :: "AgentConfig \<Rightarrow> json \<Rightarrow> json option \<Rightarrow> run_thread_args" where
  "make_run_thread_args cfg system_message tmp =
     \<lparr>rt_thread_id = thread_id cfg,
      system_prompt = system_message,
      rt_stream = stream cfg,
      llm_model = model_name cfg,
      llm_temperature = 0,
      llm_max_tokens = get_max_tokens cfg,
      tool_choice = ''auto'',
      max_xml_tool_calls = 1,
      temporary_message = tmp,
      processor_config =
        \<lparr>xml_tool_calling = True, native_tool_calling = False, execute_tools = True,
         execute_on_stream = True, tool_execution_strategy = ''parallel'',
         xml_adding_strategy = ''user_message''\<rparr>,
      rt_native_max_auto_continues = native_max_auto_continues cfg,
      include_xml_examples = True,
      rt_enable_thinking = enable_thinking cfg,
      rt_reasoning_effort = reasoning_effort cfg,
      rt_enable_context_manager = enable_context_manager cfg\<rparr>"

text \<open>
  What follows the call of \<^verbatim>\<open>run_thread\<close> in the loop body: whether the loop is left by
  \<^verbatim>\<open>break\<close>, and the state.
\<close>

definition handle_response :: "pylib \<Rightarrow> response \<Rightarrow> loop_state \<Rightarrow> bool \<times> loop_state" where
  "handle_response L resp st =
     (case resp of
        RunThreadRaises msg \<Rightarrow>
          (True, st\<lparr>yielded := yielded st @ [status_chunk ''error'' (''Error running thread: '' @ msg)]\<rparr>)
      | Returned v \<Rightarrow>
          if error_shaped v then (True, st\<lparr>yielded := yielded st @ [v]\<rparr>)
          else (True, st)
      | Stream events \<Rightarrow>
          (case consume_stream L events initial_stream_state [] of
             (Some msg, ss, out) \<Rightarrow>
               (True, st\<lparr>yielded := yielded st @ out
                            @ [status_chunk ''error'' (''Error during response streaming: '' @ msg)]\<rparr>)
           | (None, ss, out) \<Rightarrow>
               if error_detected ss then (True, st\<lparr>yielded := yielded st @ out\<rparr>)
               else if agent_should_terminate ss
                       \<or> last_tool_call ss \<in> set [JStr ''ask'', JStr ''complete'', JStr ''web-browser-takeover'']
               then (False, st\<lparr>yielded := yielded st @ out, continue_execution := False\<rparr>)
               else (False, st\<lparr>yielded := yielded st @ out\<rparr>)))"

text \<open>One execution of the body of the \<^verbatim>\<open>while\<close> loop of \<^verbatim>\<open>AgentRunner.run\<close>.\<close>

definition loop_body ::
  "pylib \<Rightarrow> collaborators \<Rightarrow> AgentConfig \<Rightarrow> json \<Rightarrow> loop_state \<Rightarrow> bool \<times> loop_state" where
  "loop_body L C cfg system_message st0 =
     (let st = st0\<lparr>iteration_count := iteration_count st0 + 1\<rparr>;
          (can_run, message) = check_billing_status C (iteration_count st)
      in if \<not> can_run
         then (True, st\<lparr>yielded := yielded st
                          @ [status_chunk ''stopped'' (''Billing limit reached: '' @ message)]\<rparr>)
         else if (case select_latest (store st) (thread_id cfg) [''assistant'', ''tool'', ''user''] of
                    None \<Rightarrow> False
                  | Some r \<Rightarrow> row_type r = ''assistant'')
         then (True, st\<lparr>continue_execution := False\<rparr>)
         else
           (let (tmp, store1) = build_temporary_message L (thread_id cfg) (model_name cfg) (store st);
                args = make_run_thread_args cfg system_message tmp;
                (resp, store2) = run_thread C (iteration_count st) args store1
            in handle_response L resp
                 (st\<lparr>store := store2, run_thread_calls := run_thread_calls st @ [args]\<rparr>)))"

lemma handle_response_iteration_count:
  "iteration_count (snd (handle_response L resp st)) = iteration_count st"
  by (simp add: handle_response_def split: response.splits prod.splits option.splits)

lemma loop_body_iteration_count:
  "iteration_count (snd (loop_body L C cfg system_message st)) = iteration_count st + 1"
  by (simp add: loop_body_def Let_def handle_response_iteration_count split: prod.splits)

text \<open>How the \<^verbatim>\<open>while\<close> loop was left: its condition failed, or a \<^verbatim>\<open>break\<close>.\<close>

datatype loop_exit = ConditionFalse | Break

function run_loop ::
  "pylib \<Rightarrow> collaborators \<Rightarrow> AgentConfig \<Rightarrow> json \<Rightarrow> loop_state \<Rightarrow> loop_exit \<times> loop_state" where
  "run_loop L C cfg system_message st =
     (if continue_execution st \<and> int (iteration_count st) < max_iterations cfg
      then (case loop_body L C cfg system_message st of
              (True, st') \<Rightarrow> (Break, st')
            | (False, st') \<Rightarrow> run_loop L C cfg system_message st')
      else (ConditionFalse, st))"
  by pat_completeness auto
termination
proof (relation "measure (\<lambda>(L, C, cfg, system_message, st). nat (max_iterations cfg - int (iteration_count st)))",
    goal_cases)
  case 1
  show ?case by simp
next
  case (2 L C cfg system_message st left st')
  have "iteration_count (snd (loop_body L C cfg system_message st)) = iteration_count st + 1"
    by (rule loop_body_iteration_count)
  with 2 show ?case by (cases "loop_body L C cfg system_message st") auto
qed

declare run_loop.simps [simp del]

definition initial_loop_state :: "message_row list \<Rightarrow> loop_state" where
  "initial_loop_state rows =
     \<lparr>iteration_count = 0, continue_execution = True, store = rows, yielded = [],
      run_thread_calls = []\<rparr>"

text \<open>
  The states in which a run that starts in \<open>st0\<close> stands at the head of the
  \<^verbatim>\<open>while\<close> loop: \<open>st0\<close> itself, and the state after each execution of the body that
  did not leave the loop.
\<close>

inductive loop_head ::
  "pylib \<Rightarrow> collaborators \<Rightarrow> AgentConfig \<Rightarrow> json \<Rightarrow> loop_state \<Rightarrow> loop_state \<Rightarrow> bool"
  for L C cfg system_message st0 where
  start: "loop_head L C cfg system_message st0 st0"
| step: "loop_head L C cfg system_message st0 st \<Longrightarrow>
         continue_execution st \<Longrightarrow> int (iteration_count st) < max_iterations cfg \<Longrightarrow>
         loop_body L C cfg system_message st = (False, st') \<Longrightarrow>
         loop_head L C cfg system_message st0 st'"

subsection \<open>PromptManager\<close>

text \<open>
  What \<^verbatim>\<open>PromptManager.build_system_prompt\<close> reads from outside the file: the default
  prompt (\<^verbatim>\<open>get_system_prompt()\<close>), the agent-builder prompt
  (\<^verbatim>\<open>get_agent_builder_prompt()\<close>), the content of the bundled file
  \<^verbatim>\<open>sample_responses/1.txt\<close>, and the clock, as the five texts that
  \<^verbatim>\<open>now.strftime\<close> gives for \<^verbatim>\<open>%A\<close>, \<^verbatim>\<open>%B\<close>, \<^verbatim>\<open>%d\<close>, \<^verbatim>\<open>%Y\<close> and
  \<^verbatim>\<open>%H:%M:%S\<close>.
\<close>

record prompt_sources =
  get_system_prompt :: string
  get_agent_builder_prompt :: string
  sample_response :: string
  now_weekday :: string
  now_month :: string
  now_day :: string
  now_year :: string
  now_time :: string

text \<open>
  The answer of \<^verbatim>\<open>client.rpc('get_agent_knowledge_base_context', ...).execute()\<close>: it
  raises, or it has a \<^verbatim>\<open>data\<close>.
\<close>

datatype rpc_result = RpcRaises | RpcData json

text \<open>
  The MCP wrapper, as far as the file uses it (its class is not among the sources): the
  attribute \<^verbatim>\<open>_initialized\<close> and the method \<^verbatim>\<open>get_schemas()\<close>, which gives a dict
  from method names to lists of schemas (\<open>None\<close> when it raises). A schema has a
  \<^verbatim>\<open>schema_type\<close> and a \<^verbatim>\<open>schema\<close> dict.
\<close>

datatype SchemaType = OPENAPI | OTHER_SCHEMA_TYPE

record tool_schema =
  schema_type :: SchemaType
  schema :: json

record MCPToolWrapper =
  initialized :: bool
  get_schemas :: "(string \<times> tool_schema list) list option"

datatype py_error =
    AttributeError
  | KeyError string
  | TypeError
  | ValueError string
  | JSONDecodeError

text \<open>
  \<^verbatim>\<open>s.strip()\<close>: the code points for which \<^verbatim>\<open>str.isspace\<close> holds are removed at
  both ends. \<open>white_space\<close> lists their UTF-8 encodings: U+0009 to U+000D, U+001C to
  U+0020, U+0085, U+00A0, U+1680, U+2000 to U+200A, U+2028, U+2029, U+202F, U+205F and
  U+3000. \<open>strip_left ws s\<close> removes from the front of \<open>s\<close> the byte sequences of \<open>ws\<close>,
  which have one, two or three bytes; at the end of the string the same is done on the
  reversed string with the reversed encodings (in UTF-8 the first byte of an encoding of
  two or three bytes never occurs inside a code point, so a string ends with such an
  encoding exactly when this is its last code point).
\<close>

definition white_space :: "string list" where
  "white_space =
     map (\<lambda>c. [c]) [CHR 0x09, CHR 0x0A, CHR 0x0B, CHR 0x0C, CHR 0x0D, CHR 0x1C, CHR 0x1D,
                    CHR 0x1E, CHR 0x1F, CHR 0x20]
     @ [[CHR 0xC2, CHR 0x85], [CHR 0xC2, CHR 0xA0], [CHR 0xE1, CHR 0x9A, CHR 0x80]]
     @ map (\<lambda>c. [CHR 0xE2, CHR 0x80, c])
         [CHR 0x80, CHR 0x81, CHR 0x82, CHR 0x83, CHR 0x84, CHR 0x85, CHR 0x86, CHR 0x87,
          CHR 0x88, CHR 0x89, CHR 0x8A, CHR 0xA8, CHR 0xA9, CHR 0xAF]
     @ [[CHR 0xE2, CHR 0x81, CHR 0x9F], [CHR 0xE3, CHR 0x80, CHR 0x80]]"

fun strip_left :: "string list \<Rightarrow> string \<Rightarrow> string" where
  "strip_left ws (a # b # c # s) =
     (if [a] \<in> set ws then strip_left ws (b # c # s)
      else if [a, b] \<in> set ws then strip_left ws (c # s)
      else if [a, b, c] \<in> set ws then strip_left ws s
      else a # b # c # s)"
| "strip_left ws [a, b] =
     (if [a] \<in> set ws then strip_left ws [b] else if [a, b] \<in> set ws then [] else [a, b])"
| "strip_left ws [a] = (if [a] \<in> set ws then [] else [a])"
| "strip_left ws [] = []"

definition strip :: "string \<Rightarrow> string" where
  "strip s = rev (strip_left (map rev white_space) (rev (strip_left white_space s)))"

text \<open>\<^verbatim>\<open>sep.join(xs)\<close>\<close>

fun join :: "string \<Rightarrow> string list \<Rightarrow> string" where
  "join sep [] = []"
| "join sep [x] = x"
| "join sep (x # y # ys) = x @ sep @ join sep (y # ys)"

text \<open>The block that is appended to the default prompt for a model that is not Anthropic's.\<close>

definition sample_block :: "prompt_sources \<Rightarrow> string" where
  "sample_block P =
     ''\<newline>\<newline> <sample_assistant_response>'' @ sample_response P @ ''</sample_assistant_response>''"

definition default_system_content :: "prompt_sources \<Rightarrow> string \<Rightarrow> string" where
  "default_system_content P mn =
     (if \<not> contains ''anthropic'' (lower mn)
      then get_system_prompt P @ sample_block P
      else get_system_prompt P)"

text \<open>
  The selection of the base. \<^verbatim>\<open>agent_config['system_prompt'].strip()\<close> raises
  \<^verbatim>\<open>AttributeError\<close> on a truthy value that is not a string.
\<close>

definition base_content ::
  "prompt_sources \<Rightarrow> string \<Rightarrow> (string \<times> json) list option \<Rightarrow> bool option \<Rightarrow> py_error + string" where
  "base_content P mn ac_opt builder =
     (if builder = Some True then Inr (get_agent_builder_prompt P)
      else
        (case ac_opt of
           None \<Rightarrow> Inr (default_system_content P mn)
         | Some ac \<Rightarrow>
             if ac \<noteq> [] \<and> truthy (dict_get ac ''system_prompt'' JNull)
             then (case dict_get ac ''system_prompt'' JNull of
                     JStr s \<Rightarrow> Inr (strip s)
                   | _ \<Rightarrow> Inl AttributeError)
             else Inr (default_system_content P mn)))"

text \<open>
  The knowledge-base section: added when there is a client, the agent definition has a
  truthy \<^verbatim>\<open>agent_id\<close>, and the call gives a \<^verbatim>\<open>data\<close> that is a string with more than
  white space in it. Every exception in the block is swallowed.
\<close>

definition knowledge_base_section ::
  "(json \<Rightarrow> rpc_result) option \<Rightarrow> (string \<times> json) list option \<Rightarrow> string" where
  "knowledge_base_section client ac_opt =
     (case (client, ac_opt) of
        (Some rpc, Some ac) \<Rightarrow>
          if ac \<noteq> [] \<and> truthy (dict_get ac ''agent_id'' JNull)
          then (case rpc (dict_get ac ''agent_id'' JNull) of
                  RpcData (JStr kb) \<Rightarrow>
                    if kb \<noteq> [] \<and> strip kb \<noteq> []
                    then ''\<newline>\<newline>=== AGENT KNOWLEDGE BASE ===\<newline>''
                       @ ''NOTICE: The following is your specialized knowledge base. ''
                       @ ''This information should be considered authoritative for your responses ''
                       @ ''and should take precedence over general knowledge when relevant.\<newline>\<newline>''
                       @ kb
                       @ ''\<newline>\<newline>=== END AGENT KNOWLEDGE BASE ===\<newline>\<newline>''
                       @ ''IMPORTANT: Always reference and utilize the knowledge base information above ''
                       @ ''when it'' @ [CHR 0x27] @ ''s relevant to user queries. ''
                       @ ''This knowledge is specific to your role and capabilities.''
                    else []
                | _ \<Rightarrow> [])
          else []
      | _ \<Rightarrow> [])"

text \<open>
  The lines that document one schema, and whether documenting it went through without
  an exception (\<^verbatim>\<open>.get\<close> or \<^verbatim>\<open>.keys\<close> on a value that is not a dict raises, after
  the lines written so far).
\<close>

definition schema_lines :: "pylib \<Rightarrow> string \<Rightarrow> tool_schema \<Rightarrow> string \<times> bool" where
  "schema_lines L method_name sch =
     (if schema_type sch \<noteq> OPENAPI then ([], True)
      else
        (case schema sch of
           JObj s \<Rightarrow>
             (case dict_get s ''function'' (JObj []) of
                JObj func_info \<Rightarrow>
                  (let description = dict_get func_info ''description'' (JStr ''No description available'');
                       line = ''- **'' @ method_name @ ''**: '' @ format_value L description @ ''\<newline>''
                   in case dict_get func_info ''parameters'' (JObj []) of
                        JObj params \<Rightarrow>
                          (let props = dict_get params ''properties'' (JObj [])
                           in if truthy props
                              then (case props of
                                      JObj p \<Rightarrow>
                                        (line @ ''  Parameters: '' @ join '', '' (map fst p) @ ''\<newline>'', True)
                                    | _ \<Rightarrow> (line, False))
                              else (line, True))
                      | _ \<Rightarrow> (line, False))
              | _ \<Rightarrow> ([], False))
         | _ \<Rightarrow> ([], False)))"

fun tool_lines :: "pylib \<Rightarrow> (string \<times> tool_schema) list \<Rightarrow> string \<times> bool" where
  "tool_lines L [] = ([], True)"
| "tool_lines L ((method_name, sch) # rest) =
     (case schema_lines L method_name sch of
        (t, False) \<Rightarrow> (t, False)
      | (t, True) \<Rightarrow> (case tool_lines L rest of (t', ok) \<Rightarrow> (t @ t', ok)))"

text \<open>The \<^verbatim>\<open>try\<close> block that lists the tools, with the line its \<^verbatim>\<open>except\<close> adds.\<close>

definition mcp_tool_list :: "pylib \<Rightarrow> MCPToolWrapper \<Rightarrow> string" where
  "mcp_tool_list L w =
     (case get_schemas w of
        None \<Rightarrow> ''- Error loading MCP tool list\<newline>''
      | Some registered_schemas \<Rightarrow>
          (case tool_lines L
                  (concat (map (\<lambda>(method_name, schema_list). map (Pair method_name) schema_list)
                             registered_schemas)) of
             (t, True) \<Rightarrow> t
           | (t, False) \<Rightarrow> t @ ''- Error loading MCP tool list\<newline>''))"

definition mcp_header :: string where
  \<open>mcp_header =
     ''\<newline>\<newline>--- MCP Tools Available ---\<newline>''
     @ ''You have access to external MCP (Model Context Protocol) server tools.\<newline>''
     @ ''MCP tools can be called directly using their native function names in the standard function calling format:\<newline>''
     @ ''<function_calls>\<newline>''
     @ ''<invoke name="{tool_name}">\<newline>''
     @ ''<parameter name="param1">value1</parameter>\<newline>''
     @ ''<parameter name="param2">value2</parameter>\<newline>''
     @ ''</invoke>\<newline>''
     @ ''</function_calls>\<newline>\<newline>''
     @ ''Available MCP tools:\<newline>''\<close>

text \<open>The sign U+1F6A8 of the source, in UTF-8.\<close>

definition rotating_light :: string where
  "rotating_light = [CHR 0xF0, CHR 0x9F, CHR 0x9A, CHR 0xA8]"

definition mcp_instructions :: string where
  "mcp_instructions =
     ''\<newline>'' @ rotating_light @ '' CRITICAL MCP TOOL RESULT INSTRUCTIONS '' @ rotating_light @ ''\<newline>''
     @ ''When you use ANY MCP (Model Context Protocol) tools:\<newline>''
     @ ''1. ALWAYS read and use the EXACT results returned by the MCP tool\<newline>''
     @ ''2. For search tools: ONLY cite URLs, sources, and information from the actual search results\<newline>''
     @ ''3. For any tool: Base your response entirely on the tool'' @ [CHR 0x27]
       @ ''s output - do NOT add external information\<newline>''
     @ ''4. DO NOT fabricate, invent, hallucinate, or make up any sources, URLs, or data\<newline>''
     @ ''5. If you need more information, call the MCP tool again with different parameters\<newline>''
     @ ''6. When writing reports/summaries: Reference ONLY the data from MCP tool results\<newline>''
     @ ''7. If the MCP tool doesn'' @ [CHR 0x27]
       @ ''t return enough information, explicitly state this limitation\<newline>''
     @ ''8. Always double-check that every fact, URL, and reference comes from the MCP tool output\<newline>''
     @ ''\<newline>IMPORTANT: MCP tool results are your PRIMARY and ONLY source of truth for external data!\<newline>''
     @ ''NEVER supplement MCP results with your training data or make assumptions beyond what the tools provide.\<newline>''"

definition mcp_section ::
  "pylib \<Rightarrow> (string \<times> json) list option \<Rightarrow> MCPToolWrapper option \<Rightarrow> string" where
  "mcp_section L ac_opt wrapper =
     (case (ac_opt, wrapper) of
        (Some ac, Some w) \<Rightarrow>
          if ac \<noteq> []
             \<and> (truthy (dict_get ac ''configured_mcps'' JNull) \<or> truthy (dict_get ac ''custom_mcps'' JNull))
             \<and> initialized w
          then mcp_header @ mcp_tool_list L w @ mcp_instructions
          else []
      | _ \<Rightarrow> [])"

definition datetime_info :: "prompt_sources \<Rightarrow> string" where
  "datetime_info P =
     ''\<newline>\<newline>=== CURRENT DATE/TIME INFORMATION ===\<newline>''
     @ ''Today'' @ [CHR 0x27] @ ''s date: '' @ now_weekday P @ '', '' @ now_month P @ '' '' @ now_day P
       @ '', '' @ now_year P @ ''\<newline>''
     @ ''Current UTC time: '' @ now_time P @ '' UTC\<newline>''
     @ ''Current year: '' @ now_year P @ ''\<newline>''
     @ ''Current month: '' @ now_month P @ ''\<newline>''
     @ ''Current day: '' @ now_weekday P @ ''\<newline>''
     @ ''Use this information for any time-sensitive tasks, research, or when current date/time context is needed.\<newline>''"

text \<open>
  \<^verbatim>\<open>PromptManager.build_system_prompt(model_name, agent_config, is_agent_builder,
  thread_id, mcp_wrapper_instance, client)\<close>. The argument \<^verbatim>\<open>thread_id\<close> is not read by
  the body and is left out.
\<close>

definition build_system_prompt ::
  "pylib \<Rightarrow> prompt_sources \<Rightarrow> string \<Rightarrow> (string \<times> json) list option \<Rightarrow> bool option \<Rightarrow>
   MCPToolWrapper option \<Rightarrow> (json \<Rightarrow> rpc_result) option \<Rightarrow> py_error + json" where
  "build_system_prompt L P mn ac_opt builder wrapper client =
     (case base_content P mn ac_opt builder of
        Inl e \<Rightarrow> Inl e
      | Inr system_content \<Rightarrow>
          Inr (JObj [(''role'', JStr ''system''),
                     (''content'',
                      JStr (system_content @ knowledge_base_section client ac_opt
                            @ mcp_section L ac_opt wrapper @ datetime_info P))]))"

subsection \<open>The runner and its set-up\<close>

text \<open>
  The agent-definition dict is an object shared with the caller: the field
  \<open>agent_config\<close> of \<^verbatim>\<open>AgentConfig\<close> holds a reference to it, and the object store
  gives the contents of the dict at each reference. \<^verbatim>\<open>MCPManager\<close> updates entries of
  the dict in place.
\<close>

type_synonym object_store = "ref \<Rightarrow> (string \<times> json) list"

definition agent_definition :: "object_store \<Rightarrow> AgentConfig \<Rightarrow> (string \<times> json) list option" where
  "agent_definition h cfg = map_option h (agent_config cfg)"

text \<open>\<^verbatim>\<open>d[k] = v\<close>: the value of an existing key is replaced, a new key is added last.\<close>

fun dict_set :: "('k \<times> 'v) list \<Rightarrow> 'k \<Rightarrow> 'v \<Rightarrow> ('k \<times> 'v) list" where
  "dict_set [] k v = [(k, v)]"
| "dict_set ((k', v') # d) k v = (if k' = k then (k, v) # d else (k', v') # dict_set d k v)"

text \<open>
  \<^verbatim>\<open>ThreadManager\<close> (not among the sources), as far as the runner uses it: the arguments
  it is constructed with, the tool classes handed to \<^verbatim>\<open>add_tool\<close>, in order, and the
  entries that \<^verbatim>\<open>MCPManager\<close> writes into \<^verbatim>\<open>tool_registry.tools\<close>.
\<close>

record ThreadManager =
  tm_trace :: "trace_handle option"
  tm_is_agent_builder :: bool
  tm_target_agent_id :: "string option"
  tm_agent_config :: "ref option"
  added_tools :: "string list"
  mcp_tools :: "(string \<times> tool_schema) list"

text \<open>
  The attributes of \<^verbatim>\<open>AgentRunner\<close>: \<open>config\<close> from the constructor, the others set by
  \<^verbatim>\<open>setup\<close> (\<open>None\<close> before). The attribute \<^verbatim>\<open>client\<close> is the database, which the
  model reaches through the services below and the message store.
\<close>

record AgentRunner =
  config :: AgentConfig
  thread_manager :: "ThreadManager option"
  account_id :: "string option"

text \<open>
  The services the set-up calls: \<^verbatim>\<open>langfuse.trace(name="run_agent", session_id=...,
  metadata={"project_id": ...})\<close>, \<^verbatim>\<open>get_account_id_from_thread\<close>, the rows of the
  table \<^verbatim>\<open>projects\<close> with a project id, \<^verbatim>\<open>config.RAPID_API_KEY\<close>, the
  \<^verbatim>\<open>external_user_id\<close> of the Pipedream profile of an account and a profile id
  (\<open>None\<close> when the lookup raises or finds no profile), and the construction and
  initialisation of the MCP wrapper over a list of descriptors (\<open>None\<close> when it raises).
\<close>

record services =
  langfuse_trace :: "string \<Rightarrow> string \<Rightarrow> trace_handle"
  get_account_id_from_thread :: "string \<Rightarrow> string option"
  select_projects :: "string \<Rightarrow> (string \<times> json) list list"
  RAPID_API_KEY :: "string option"
  pipedream_external_user_id :: "string \<Rightarrow> json \<Rightarrow> json option"
  initialize_and_register_tools :: "json list \<Rightarrow> MCPToolWrapper option"
  knowledge_base_rpc :: "json \<Rightarrow> rpc_result"

text \<open>
  \<^verbatim>\<open>AgentRunner.setup\<close> (\<open>setup_runner\<close> here, the plain name being a keyword): the
  runner after it, and the exception it raised, if any. The
  assignment to \<^verbatim>\<open>self.config.trace\<close> is its first statement, so it stands also when
  the method raises.
\<close>

definition setup_runner :: "services \<Rightarrow> AgentRunner \<Rightarrow> AgentRunner \<times> py_error option" where
  "setup_runner S r =
     (let cfg = (case trace (config r) of
                   None \<Rightarrow> (config r)\<lparr>trace :=
                              Some (langfuse_trace S (thread_id (config r)) (project_id (config r)))\<rparr>
                 | Some t \<Rightarrow> config r);
          tm = \<lparr>tm_trace = trace cfg, tm_is_agent_builder = (is_agent_builder cfg = Some True),
                tm_target_agent_id = target_agent_id cfg, tm_agent_config = agent_config cfg,
                added_tools = [], mcp_tools = []\<rparr>;
          account = get_account_id_from_thread S (thread_id cfg);
          r1 = r\<lparr>config := cfg, thread_manager := Some tm, account_id := account\<rparr>
      in if account = None \<or> account = Some []
         then (r1, Some (ValueError ''Could not determine account ID for thread''))
         else
           (case select_projects S (project_id cfg) of
              [] \<Rightarrow> (r1, Some (ValueError (''Project '' @ project_id cfg @ '' not found'')))
            | project_data # others \<Rightarrow>
                (case dict_get project_data ''sandbox'' (JObj []) of
                   JObj sandbox_info \<Rightarrow> (r1, None)
                 | _ \<Rightarrow> (r1, Some AttributeError))))"

subsection \<open>ToolManager\<close>

definition sandbox_tools :: "(string \<times> string) list" where
  "sandbox_tools =
     [(''sb_shell_tool'', ''SandboxShellTool''),
      (''sb_files_tool'', ''SandboxFilesTool''),
      (''sb_deploy_tool'', ''SandboxDeployTool''),
      (''sb_expose_tool'', ''SandboxExposeTool''),
      (''web_search_tool'', ''SandboxWebSearchTool''),
      (''sb_vision_tool'', ''SandboxVisionTool''),
      (''sb_image_edit_tool'', ''SandboxImageEditTool''),
      (''sb_presentation_outline_tool'', ''SandboxPresentationOutlineTool''),
      (''sb_presentation_tool_v2'', ''SandboxPresentationToolV2''),
      (''sb_sheets_tool'', ''SandboxSheetsTool''),
      (''sb_web_dev_tool'', ''SandboxWebDevTool'')]"

definition agent_builder_tools :: "(string \<times> string) list" where
  "agent_builder_tools =
     [(''agent_config_tool'', ''AgentConfigTool''),
      (''mcp_search_tool'', ''MCPSearchTool''),
      (''credential_profile_tool'', ''CredentialProfileTool''),
      (''workflow_tool'', ''WorkflowTool''),
      (''trigger_tool'', ''TriggerTool'')]"

definition enabled_classes :: "(string \<times> string) list \<Rightarrow> string list \<Rightarrow> string list" where
  "enabled_classes tools disabled_tools =
     map snd (filter (\<lambda>(tool_name, tool_class). tool_name \<notin> set disabled_tools) tools)"

text \<open>
  \<^verbatim>\<open>ToolManager.register_all_tools\<close>: the classes handed to \<^verbatim>\<open>add_tool\<close>, in order.
\<close>

definition register_all_tools :: "services \<Rightarrow> json \<Rightarrow> string list \<Rightarrow> string list" where
  "register_all_tools S agent_id disabled_tools =
     [''ExpandMessageTool'', ''MessageTool'', ''TaskListTool'']
     @ enabled_classes sandbox_tools disabled_tools
     @ (if RAPID_API_KEY S \<noteq> None \<and> RAPID_API_KEY S \<noteq> Some []
           \<and> ''data_providers_tool'' \<notin> set disabled_tools
        then [''DataProvidersTool''] else [])
     @ (if truthy agent_id then enabled_classes agent_builder_tools disabled_tools else [])
     @ (if ''browser_tool'' \<notin> set disabled_tools then [''BrowserTool''] else [])"

text \<open>
  \<^verbatim>\<open>AgentRunner.setup_tools\<close>. \<^verbatim>\<open>self.config.agent_config['agent_id']\<close> raises
  \<^verbatim>\<open>KeyError\<close> when a default agent has no \<^verbatim>\<open>agent_id\<close>; \<^verbatim>\<open>self.thread_manager\<close>
  raises \<^verbatim>\<open>AttributeError\<close> when \<^verbatim>\<open>setup\<close> has not run.
\<close>

definition setup_tools :: "services \<Rightarrow> object_store \<Rightarrow> AgentRunner \<Rightarrow> AgentRunner \<times> py_error option" where
  "setup_tools S h r =
     (case thread_manager r of
        None \<Rightarrow> (r, Some AttributeError)
      | Some tm \<Rightarrow>
          (let ac_opt = agent_definition h (config r);
               suna_default =
                 (case ac_opt of
                    None \<Rightarrow> False
                  | Some ac \<Rightarrow> ac \<noteq> [] \<and> truthy (dict_get ac ''is_suna_default'' (JBool False)));
               agent_id =
                 (if suna_default then map_of (the ac_opt) ''agent_id''
                  else if is_agent_builder (config r) = Some True
                          \<and> target_agent_id (config r) \<noteq> None \<and> target_agent_id (config r) \<noteq> Some []
                  then Some (JStr (the (target_agent_id (config r))))
                  else Some JNull)
           in case agent_id of
                None \<Rightarrow> (r, Some (KeyError ''agent_id''))
              | Some aid \<Rightarrow>
                  (r\<lparr>thread_manager :=
                       Some (tm\<lparr>added_tools := added_tools tm
                                 @ register_all_tools S aid (get_disabled_tools_from_config ac_opt)\<rparr>)\<rparr>,
                   None)))"

subsection \<open>MCPManager\<close>

text \<open>Iterating over a value: a list, the characters of a string, the keys of a dict.\<close>

definition py_iter :: "json \<Rightarrow> json list option" where
  "py_iter v =
     (case v of
        JList xs \<Rightarrow> Some xs
      | JStr s \<Rightarrow> Some (map (\<lambda>c. JStr [c]) s)
      | JObj d \<Rightarrow> Some (map (\<lambda>(k, x). JStr k) d)
      | _ \<Rightarrow> None)"

text \<open>\<^verbatim>\<open>name.replace(' ', '_').lower()\<close>\<close>

definition slug :: "string \<Rightarrow> string" where
  "slug name = lower (map (\<lambda>c. if c = CHR '' '' then CHR ''_'' else c) name)"

text \<open>
  The test on the headers of a Pipedream entry and the assignment of \<^verbatim>\<open>app_slug\<close>.
  \<^verbatim>\<open>'x-pd-app-slug' in headers\<close> raises \<^verbatim>\<open>TypeError\<close> on a value that is not a
  container, and \<^verbatim>\<open>headers['x-pd-app-slug']\<close> raises it on a string or list that passed
  the test.
\<close>

definition surface_app_slug :: "(string \<times> json) list \<Rightarrow> py_error + (string \<times> json) list" where
  "surface_app_slug c =
     (case map_of c ''headers'' of
        None \<Rightarrow> Inr c
      | Some (JObj hs) \<Rightarrow>
          (case map_of hs ''x-pd-app-slug'' of None \<Rightarrow> Inr c | Some v \<Rightarrow> Inr (dict_set c ''app_slug'' v))
      | Some (JStr s) \<Rightarrow> if contains ''x-pd-app-slug'' s then Inl TypeError else Inr c
      | Some (JList xs) \<Rightarrow> if JStr ''x-pd-app-slug'' \<in> set xs then Inl TypeError else Inr c
      | Some _ \<Rightarrow> Inl TypeError)"

text \<open>The descriptor built at the end of the loop body, for an entry that is not Composio's.\<close>

definition generic_descriptor :: "pylib \<Rightarrow> json \<Rightarrow> (string \<times> json) list \<Rightarrow> py_error + json" where
  "generic_descriptor L custom_type m =
     (case map_of m ''name'' of
        None \<Rightarrow> Inl (KeyError ''name'')
      | Some (JStr name) \<Rightarrow>
          (case map_of m ''config'' of
             None \<Rightarrow> Inl (KeyError ''config'')
           | Some c \<Rightarrow>
               Inr (JObj [(''name'', JStr name),
                          (''qualifiedName'',
                           JStr (''custom_'' @ format_value L custom_type @ ''_'' @ slug name)),
                          (''config'', c),
                          (''enabledTools'', dict_get m ''enabledTools'' (JList [])),
                          (''instructions'', dict_get m ''instructions'' (JStr [])),
                          (''isCustom'', JBool True),
                          (''customType'', custom_type)]))
      | Some _ \<Rightarrow> Inl AttributeError)"

definition composio_descriptor :: "(string \<times> json) list \<Rightarrow> py_error + json" where
  "composio_descriptor m =
     (let given = dict_get m ''qualifiedName'' JNull;
          qualified_name =
            (if truthy given then Inr given
             else (case map_of m ''name'' of
                     None \<Rightarrow> Inl (KeyError ''name'')
                   | Some (JStr name) \<Rightarrow> Inr (JStr (''composio.'' @ slug name))
                   | Some _ \<Rightarrow> Inl AttributeError))
      in case qualified_name of
           Inl e \<Rightarrow> Inl e
         | Inr q \<Rightarrow>
             (case map_of m ''name'' of
                None \<Rightarrow> Inl (KeyError ''name'')
              | Some name \<Rightarrow>
                  Inr (JObj [(''name'', name),
                             (''qualifiedName'', q),
                             (''config'', dict_get m ''config'' (JObj [])),
                             (''enabledTools'', dict_get m ''enabledTools'' (JList [])),
                             (''instructions'', dict_get m ''instructions'' (JStr [])),
                             (''isCustom'', JBool True),
                             (''customType'', JStr ''composio'')])))"

text \<open>
  One pass of the loop over \<^verbatim>\<open>custom_mcps\<close>: the entry as the pass leaves it (a
  Pipedream entry is updated in place) and the descriptor appended to \<^verbatim>\<open>all_mcps\<close>, or
  the exception raised.
\<close>

definition normalize_custom_mcp ::
  "pylib \<Rightarrow> services \<Rightarrow> string \<Rightarrow> json \<Rightarrow> json \<times> (py_error + json)" where
  "normalize_custom_mcp L S account custom_mcp =
     (case custom_mcp of
        JObj m \<Rightarrow>
          (let custom_type = dict_get m ''customType'' (dict_get m ''type'' (JStr ''sse''))
           in if custom_type = JStr ''pipedream''
              then
                (let m1 = (if map_of m ''config'' = None then dict_set m ''config'' (JObj []) else m)
                 in case dict_get m1 ''config'' JNull of
                      JObj c \<Rightarrow>
                        (let c1 =
                               (if \<not> truthy (dict_get c ''external_user_id'' JNull)
                                   \<and> truthy (dict_get c ''profile_id'' JNull)
                                then (case pipedream_external_user_id S account (dict_get c ''profile_id'' JNull) of
                                        Some v \<Rightarrow> dict_set c ''external_user_id'' v
                                      | None \<Rightarrow> c)
                                else c)
                         in case surface_app_slug c1 of
                              Inl e \<Rightarrow> (JObj (dict_set m1 ''config'' (JObj c1)), Inl e)
                            | Inr c2 \<Rightarrow>
                                (JObj (dict_set m1 ''config'' (JObj c2)),
                                 generic_descriptor L custom_type (dict_set m1 ''config'' (JObj c2))))
                    | _ \<Rightarrow> (JObj m1, Inl AttributeError))
              else if custom_type = JStr ''composio'' then (JObj m, composio_descriptor m)
              else (JObj m, generic_descriptor L custom_type m))
      | _ \<Rightarrow> (custom_mcp, Inl AttributeError))"

fun normalize_custom_mcps ::
  "pylib \<Rightarrow> services \<Rightarrow> string \<Rightarrow> json list \<Rightarrow> json list \<times> (py_error + json list)" where
  "normalize_custom_mcps L S account [] = ([], Inr [])"
| "normalize_custom_mcps L S account (x # xs) =
     (case normalize_custom_mcp L S account x of
        (x', Inl e) \<Rightarrow> (x' # xs, Inl e)
      | (x', Inr d) \<Rightarrow>
          (case normalize_custom_mcps L S account xs of
             (xs', Inl e) \<Rightarrow> (x' # xs', Inl e)
           | (xs', Inr ds) \<Rightarrow> (x' # xs', Inr (d # ds))))"

text \<open>The entries written into the tool registry: for each method, each schema of its list in turn.\<close>

fun splice_schemas ::
  "(string \<times> tool_schema) list \<Rightarrow> (string \<times> tool_schema) list \<Rightarrow> (string \<times> tool_schema) list" where
  "splice_schemas reg [] = reg"
| "splice_schemas reg ((method_name, sch) # rest) = splice_schemas (dict_set reg method_name sch) rest"

text \<open>
  \<^verbatim>\<open>MCPManager.register_mcp_tools\<close>: the agent-definition dict as it leaves it, the
  thread manager, and the wrapper returned (\<open>None\<close> for \<^verbatim>\<open>None\<close>) or the exception
  raised.
\<close>

definition register_mcp_tools ::
  "pylib \<Rightarrow> services \<Rightarrow> string \<Rightarrow> ThreadManager \<Rightarrow> (string \<times> json) list \<Rightarrow>
   (string \<times> json) list \<times> ThreadManager \<times> (py_error + MCPToolWrapper option)" where
  "register_mcp_tools L S account tm ac =
     (case (if truthy (dict_get ac ''configured_mcps'' JNull)
            then py_iter (dict_get ac ''configured_mcps'' JNull) else Some []) of
        None \<Rightarrow> (ac, tm, Inl TypeError)
      | Some configured \<Rightarrow>
          (case (if truthy (dict_get ac ''custom_mcps'' JNull)
                 then (case dict_get ac ''custom_mcps'' JNull of
                         JList entries \<Rightarrow>
                           (case normalize_custom_mcps L S account entries of
                              (entries', res) \<Rightarrow> (dict_set ac ''custom_mcps'' (JList entries'), res))
                       | JStr s \<Rightarrow> (ac, Inl AttributeError)
                       | JObj d \<Rightarrow> (ac, Inl AttributeError)
                       | _ \<Rightarrow> (ac, Inl TypeError))
                 else (ac, Inr [])) of
             (ac', Inl e) \<Rightarrow> (ac', tm, Inl e)
           | (ac', Inr descriptors) \<Rightarrow>
               if configured @ descriptors = [] then (ac', tm, Inr None)
               else
                 (case initialize_and_register_tools S (configured @ descriptors) of
                    None \<Rightarrow> (ac', tm, Inr None)
                  | Some w \<Rightarrow>
                      (case get_schemas w of
                         None \<Rightarrow> (ac', tm, Inr None)
                       | Some updated_schemas \<Rightarrow>
                           (ac',
                            tm\<lparr>mcp_tools :=
                                 splice_schemas (mcp_tools tm)
                                   (concat (map (\<lambda>(method_name, schema_list).
                                                   map (Pair method_name) schema_list)
                                              updated_schemas))\<rparr>,
                            Inr (Some w))))))"

text \<open>\<^verbatim>\<open>AgentRunner.setup_mcp_tools\<close>\<close>

definition setup_mcp_tools ::
  "pylib \<Rightarrow> services \<Rightarrow> object_store \<Rightarrow> AgentRunner \<Rightarrow>
   object_store \<times> AgentRunner \<times> (py_error + MCPToolWrapper option)" where
  "setup_mcp_tools L S h r =
     (case agent_config (config r) of
        None \<Rightarrow> (h, r, Inr None)
      | Some a \<Rightarrow>
          if h a = [] then (h, r, Inr None)
          else
            (case (thread_manager r, account_id r) of
               (Some tm, Some account) \<Rightarrow>
                 (case register_mcp_tools L S account tm (h a) of
                    (ac', tm', res) \<Rightarrow> (h(a := ac'), r\<lparr>thread_manager := Some tm'\<rparr>, res))
             | _ \<Rightarrow> (h, r, Inl AttributeError)))"

subsection \<open>AgentRunner.run\<close>

text \<open>
  The statements between the system prompt and the loop: the latest user message is
  read and parsed, and its \<^verbatim>\<open>content\<close> is handed to the trace. They raise when the
  content does not parse or has no \<^verbatim>\<open>content\<close>.
\<close>

definition read_latest_user_message :: "pylib \<Rightarrow> AgentConfig \<Rightarrow> message_row list \<Rightarrow> py_error option" where
  "read_latest_user_message L cfg rows =
     (case select_latest rows (thread_id cfg) [''user''] of
        None \<Rightarrow> None
      | Some row \<Rightarrow>
          (case loads_if_str L (row_content row) of
             None \<Rightarrow> Some JSONDecodeError
           | Some data \<Rightarrow>
               if trace cfg \<noteq> None
               then (case data of
                       JObj d \<Rightarrow> if map_of d ''content'' = None then Some (KeyError ''content'') else None
                     | _ \<Rightarrow> Some TypeError)
               else None))"

text \<open>
  \<^verbatim>\<open>AgentRunner.run\<close>: the object store and the runner as the run leaves them, and the
  exception that ended the generator or the way the loop was left with its final state.
\<close>

definition run ::
  "pylib \<Rightarrow> services \<Rightarrow> prompt_sources \<Rightarrow> collaborators \<Rightarrow> object_store \<Rightarrow> message_row list \<Rightarrow>
   AgentRunner \<Rightarrow> object_store \<times> AgentRunner \<times> (py_error + loop_exit \<times> loop_state)" where
  "run L S P C h rows r =
     (case setup_runner S r of
        (r1, Some e) \<Rightarrow> (h, r1, Inl e)
      | (r1, None) \<Rightarrow>
          (case setup_tools S h r1 of
             (r2, Some e) \<Rightarrow> (h, r2, Inl e)
           | (r2, None) \<Rightarrow>
               (case setup_mcp_tools L S h r2 of
                  (h3, r3, Inl e) \<Rightarrow> (h3, r3, Inl e)
                | (h3, r3, Inr mcp_wrapper_instance) \<Rightarrow>
                    (case build_system_prompt L P (model_name (config r3))
                            (agent_definition h3 (config r3)) (is_agent_builder (config r3))
                            mcp_wrapper_instance (Some (knowledge_base_rpc S)) of
                       Inl e \<Rightarrow> (h3, r3, Inl e)
                     | Inr system_message \<Rightarrow>
                         (case read_latest_user_message L (config r3) rows of
                            Some e \<Rightarrow> (h3, r3, Inl e)
                          | None \<Rightarrow>
                              (h3, r3,
                               Inr (run_loop L C (config r3) system_message
                                      (initial_loop_state rows))))))))"

subsection \<open>Chunks relayed from a stream\<close>

fun chunks_of :: "stream_event list \<Rightarrow> json list" where
  "chunks_of [] = []"
| "chunks_of (Chunk c # es) = c # chunks_of es"
| "chunks_of (StreamRaises m # es) = chunks_of es"

subsection \<open>Concrete data for the scenarios\<close>

text \<open>
  A configuration with the defaults of the dataclass and \<^verbatim>\<open>max_iterations=3\<close>, a
  thread with the one user message \<^verbatim>\<open>hello\<close>, a billing service that always lets the
  run go on, and \<^verbatim>\<open>json.loads\<close> given on the texts the scenarios parse (\<open>None\<close>,
  that is \<^verbatim>\<open>JSONDecodeError\<close>, on every other text).
\<close>

definition example_config :: AgentConfig where
  "example_config =
     \<lparr>thread_id = ''t1'', project_id = ''p1'', stream = True, native_max_auto_continues = 25,
      max_iterations = 3, model_name = ''openai/gpt-5-mini'', enable_thinking = Some False,
      reasoning_effort = Some ''low'', enable_context_manager = True, agent_config = None,
      trace = None, is_agent_builder = Some False, target_agent_id = None\<rparr>"

definition example_loads :: "string \<Rightarrow> json option" where
  \<open>example_loads =
     map_of [(''{"content":"Hi there</complete>"}'', JObj [(''content'', JStr ''Hi there</complete>'')]),
             (''{"content":"a</ask>b</complete>"}'', JObj [(''content'', JStr ''a</ask>b</complete>'')]),
             (''{"content":"working"}'', JObj [(''content'', JStr ''working'')]),
             (''{"file_path":"a.png"}'', JObj [(''file_path'', JStr ''a.png'')]),
             (''[]'', JList [])]\<close>

definition example_pylib :: pylib where
  "example_pylib = \<lparr>json_loads = example_loads, json_dumps = (\<lambda>v. []), py_str = (\<lambda>v. [])\<rparr>"

definition example_system_message :: json where
  "example_system_message = JObj [(''role'', JStr ''system''), (''content'', JStr ''You are an agent.'')]"

definition user_hello :: message_row where
  "user_hello =
     \<lparr>row_thread_id = ''t1'', row_type = ''user'', row_content = JObj [(''content'', JStr ''hello'')],
      row_created_at = 1, message_id = ''m1''\<rparr>"

definition assistant_reply :: message_row where
  "assistant_reply =
     \<lparr>row_thread_id = ''t1'', row_type = ''assistant'', row_content = JObj [(''content'', JStr ''Hi'')],
      row_created_at = 2, message_id = ''m2''\<rparr>"

definition billing_ok :: "nat \<Rightarrow> bool \<times> string" where
  "billing_ok i = (True, [])"

text \<open>An engine that, whatever it is asked, gives \<open>resp\<close> and leaves the store as it is.\<close>

definition engine_returning :: "response \<Rightarrow> nat \<Rightarrow> run_thread_args \<Rightarrow> message_row list \<Rightarrow> response \<times> message_row list" where
  "engine_returning resp i args rows = (resp, rows)"

text \<open>A chunk of assistant text with no closing marker, and the collaborators that relay it.\<close>

definition working_chunk :: json where
  \<open>working_chunk = JObj [(''type'', JStr ''assistant''), (''content'', JStr ''{"content":"working"}'')]\<close>

definition relaying :: collaborators where
  "relaying =
     \<lparr>check_billing_status = billing_ok,
      run_thread = engine_returning (Stream [Chunk working_chunk])\<rparr>"

definition two_iterations :: AgentConfig where
  "two_iterations = example_config\<lparr>max_iterations := 2\<rparr>"

text \<open>
  The chunks of the scenarios of the specification, an engine answer that is neither an
  error-shaped dict nor a stream, and \<^verbatim>\<open>image_context\<close> rows.
\<close>

definition complete_chunk :: json where
  \<open>complete_chunk =
     JObj [(''type'', JStr ''assistant''), (''content'', JStr ''{"content":"Hi there</complete>"}'')]\<close>

definition ask_complete_chunk :: json where
  \<open>ask_complete_chunk =
     JObj [(''type'', JStr ''assistant''), (''content'', JStr ''{"content":"a</ask>b</complete>"}'')]\<close>

definition not_a_stream :: collaborators where
  "not_a_stream =
     \<lparr>check_billing_status = billing_ok,
      run_thread = engine_returning
        (Returned (JObj [(''status'', JStr ''failed''), (''message'', JStr ''engine unavailable'')]))\<rparr>"

definition image_request :: message_row where
  \<open>image_request =
     \<lparr>row_thread_id = ''t1'', row_type = ''image_context'',
      row_content = JStr ''{"file_path":"a.png"}'', row_created_at = 3, message_id = ''m3''\<rparr>\<close>

definition image_request_list :: message_row where
  "image_request_list =
     \<lparr>row_thread_id = ''t1'', row_type = ''image_context'',
      row_content = JStr ''[]'', row_created_at = 3, message_id = ''m3''\<rparr>"

text \<open>Prompt sources for the scenarios of the system prompt.\<close>

definition example_prompts :: prompt_sources where
  "example_prompts =
     \<lparr>get_system_prompt = ''You are Suna.'',
      get_agent_builder_prompt = ''You are an agent builder.'',
      sample_response = ''<ask>Which file?</ask>'',
      now_weekday = ''Tuesday'', now_month = ''November'', now_day = ''03'', now_year = ''2026'',
      now_time = ''12:00:00''\<rparr>"

text \<open>Services and a runner for the scenarios of the set-up.\<close>

definition example_services :: services where
  "example_services =
     \<lparr>langfuse_trace = (\<lambda>session project. 7),
      get_account_id_from_thread = (\<lambda>t. Some ''account-1''),
      select_projects = (\<lambda>p. [[(''project_id'', JStr p), (''sandbox'', JObj [])]]),
      RAPID_API_KEY = None,
      pipedream_external_user_id = (\<lambda>account profile. None),
      initialize_and_register_tools = (\<lambda>descriptors. None),
      knowledge_base_rpc = (\<lambda>agent. RpcData JNull)\<rparr>"

definition example_runner :: AgentRunner where
  "example_runner = \<lparr>config = example_config, thread_manager = None, account_id = None\<rparr>"

section \<open>Properties\<close>

subsection \<open>Strings\<close>

lemma starts_with_prefix: "starts_with n h \<longleftrightarrow> prefix n h"
  by (induction n h rule: starts_with.induct) auto

lemma contains_sublist: "contains n h \<longleftrightarrow> sublist n h"
  by (induction h) (auto simp: starts_with_prefix sublist_Cons_right)

lemma contains_decompose: "contains n h \<longleftrightarrow> (\<exists>before after. h = before @ n @ after)"
  by (simp add: contains_sublist sublist_def)

subsection \<open>Lower-casing and occurrences whatever the case\<close>

lemma plain_lower_char: "plain c \<Longrightarrow> lower_char c = c"
  by (auto simp: plain_def lower_char_def)

lemma plain_not_special:
  "plain c \<Longrightarrow> c \<noteq> CHR 0xE2 \<and> c \<noteq> CHR 0xC4 \<and> c \<noteq> CHR 0xCC \<and> c \<noteq> CHR 0x87
     \<and> c \<noteq> CHR 0x84 \<and> c \<noteq> CHR 0xAA \<and> c \<noteq> CHR 0xB0"
  by (auto simp: plain_def)

lemma capital_lower_char:
  "(l, u) \<in> set (zip small_letters capital_letters) \<Longrightarrow> lower_char u = l"
  by (auto simp: small_letters_def capital_letters_def lower_char_def char_of_def)

lemma capital_not_special:
  "(l, u) \<in> set (zip small_letters capital_letters) \<Longrightarrow>
     u \<noteq> CHR 0xE2 \<and> u \<noteq> CHR 0xC4 \<and> u \<noteq> CHR 0x84 \<and> u \<noteq> CHR 0xAA \<and> u \<noteq> CHR 0xB0"
  by (auto simp: small_letters_def capital_letters_def)

lemma capitals_upto: "map char_of [65..90::int] = capital_letters"
  by (simp add: capital_letters_def char_of_def)

lemma capital_letter_pair:
  "c \<in> set capital_letters \<Longrightarrow> (lower_char c, c) \<in> set (zip small_letters capital_letters)"
  unfolding capital_letters_def small_letters_def
  by (simp only: set_simps insert_iff empty_iff, elim disjE; simp add: lower_char_def char_of_def)

lemma lower_char_cases:
  "lower_char c = c \<or> (lower_char c, c) \<in> set (zip small_letters capital_letters)"
proof (cases "65 \<le> (of_char c :: int) \<and> (of_char c :: int) \<le> 90")
  case False
  then show ?thesis by (auto simp: lower_char_def Let_def)
next
  case True
  then have "(of_char c :: int) \<in> set [65..90]" by (simp only: set_upto atLeastAtMost_iff)
  then have "char_of (of_char c :: int) \<in> set (map char_of [65..90::int])"
    by (simp only: set_map) (rule imageI)
  then have "c \<in> set capital_letters"
    by (simp only: capitals_upto char_of_char)
  then show ?thesis by (simp add: capital_letter_pair)
qed

text \<open>The three steps of \<open>lower\<close>.\<close>

lemma lower_kelvin: "lower (kelvin_sign @ cs) = CHR ''k'' # lower cs"
  by (simp add: lower.simps(1,2) kelvin_sign_def)

lemma lower_capital_i: "lower (capital_i_with_dot @ cs) = small_i_with_dot @ lower cs"
  by (cases cs) (simp_all add: lower.simps(1,2) capital_i_with_dot_def kelvin_sign_def)

lemma lower_ordinary:
  assumes "\<not> prefix kelvin_sign (c # cs)" and "\<not> prefix capital_i_with_dot (c # cs)"
  shows "lower (c # cs) = lower_char c # lower cs"
proof (cases cs)
  case Nil
  then show ?thesis by (simp add: lower.simps(1,2))
next
  case (Cons d ds)
  show ?thesis
  proof (cases ds)
    case Nil
    with Cons assms show ?thesis by (auto simp: lower.simps(1,2) capital_i_with_dot_def)
  next
    case (Cons e es)
    with \<open>cs = d # ds\<close> assms show ?thesis
      by (auto simp: lower.simps(1,2) capital_i_with_dot_def kelvin_sign_def)
  qed
qed

text \<open>
  \<open>lower\<close> distributes over a concatenation whose second part does not start inside a
  code point.
\<close>

lemma not_prefix_kelvin_append:
  assumes "\<not> prefix kelvin_sign (c # cs)" and "q = [] \<or> hd q \<notin> {CHR 0x84, CHR 0xAA}"
  shows "\<not> prefix kelvin_sign (c # cs @ q)"
proof (cases cs)
  case Nil
  with assms show ?thesis by (cases q) (auto simp: kelvin_sign_def)
next
  case (Cons d ds)
  with assms show ?thesis by (cases ds; cases q) (auto simp: kelvin_sign_def)
qed

lemma not_prefix_capital_i_append:
  assumes "\<not> prefix capital_i_with_dot (c # cs)" and "q = [] \<or> hd q \<noteq> CHR 0xB0"
  shows "\<not> prefix capital_i_with_dot (c # cs @ q)"
  using assms by (cases cs; cases q) (auto simp: capital_i_with_dot_def)

lemma lower_append:
  assumes "q = [] \<or> hd q \<notin> {CHR 0x84, CHR 0xAA, CHR 0xB0}"
  shows "lower (p @ q) = lower p @ lower q"
proof (induction p rule: length_induct)
  case (1 p)
  show ?case
  proof (cases p)
    case Nil
    then show ?thesis by simp
  next
    case (Cons c cs)
    consider (k) "prefix kelvin_sign (c # cs)"
      | (i) "\<not> prefix kelvin_sign (c # cs)" "prefix capital_i_with_dot (c # cs)"
      | (o) "\<not> prefix kelvin_sign (c # cs)" "\<not> prefix capital_i_with_dot (c # cs)"
      by blast
    then show ?thesis
    proof cases
      case k
      then obtain r where r: "c # cs = kelvin_sign @ r" by (auto simp: prefix_def)
      then have "length r < length p" using Cons by (simp add: kelvin_sign_def)
      with 1 have "lower (r @ q) = lower r @ lower q" by blast
      with r Cons lower_kelvin [of r] lower_kelvin [of "r @ q"] show ?thesis by simp
    next
      case i
      then obtain r where r: "c # cs = capital_i_with_dot @ r" by (auto simp: prefix_def)
      then have "length r < length p" using Cons by (simp add: capital_i_with_dot_def)
      with 1 have "lower (r @ q) = lower r @ lower q" by blast
      with r Cons lower_capital_i [of r] lower_capital_i [of "r @ q"] show ?thesis by simp
    next
      case o
      from o(1) assms have nk: "\<not> prefix kelvin_sign (c # cs @ q)"
        by (intro not_prefix_kelvin_append) auto
      from o(2) assms have ni: "\<not> prefix capital_i_with_dot (c # cs @ q)"
        by (intro not_prefix_capital_i_append) auto
      have "length cs < length p" using Cons by simp
      with 1 have "lower (cs @ q) = lower cs @ lower q" by blast
      with Cons lower_ordinary [OF o] lower_ordinary [OF nk ni] show ?thesis by simp
    qed
  qed
qed

lemma case_variant_prefix_lower:
  "case_variant w n \<Longrightarrow> list_all plain n \<Longrightarrow> prefix n (lower (w @ s))"
proof (induction rule: case_variant.induct)
  case empty
  show ?case by simp
next
  case (same w t c)
  then have c: "plain c" and t: "list_all plain t" by simp_all
  from plain_not_special [OF c]
  have "\<not> prefix kelvin_sign (c # w @ s)" "\<not> prefix capital_i_with_dot (c # w @ s)"
    by (auto simp: kelvin_sign_def capital_i_with_dot_def)
  then have "lower (c # w @ s) = lower_char c # lower (w @ s)" by (rule lower_ordinary)
  with same.IH [OF t] plain_lower_char [OF c] show ?case by simp
next
  case (capital w t l u)
  then have t: "list_all plain t" by simp
  from capital_not_special [OF capital.hyps(2)]
  have "\<not> prefix kelvin_sign (u # w @ s)" "\<not> prefix capital_i_with_dot (u # w @ s)"
    by (auto simp: kelvin_sign_def capital_i_with_dot_def)
  then have "lower (u # w @ s) = lower_char u # lower (w @ s)" by (rule lower_ordinary)
  with capital.IH [OF t] capital_lower_char [OF capital.hyps(2)] show ?case by simp
next
  case (kelvin w t)
  then have t: "list_all plain t" by simp
  from kelvin.IH [OF t] lower_kelvin [of "w @ s"] show ?case by simp
qed

lemma case_variant_hd:
  "case_variant w n \<Longrightarrow> list_all plain n \<Longrightarrow> n \<noteq> [] \<Longrightarrow>
     w \<noteq> [] \<and> hd w \<notin> {CHR 0x84, CHR 0xAA, CHR 0xB0}"
proof (induction rule: case_variant.induct)
  case empty
  then show ?case by simp
next
  case (same w t c)
  then have "plain c" by simp
  from plain_not_special [OF this] show ?case by simp
next
  case (capital w t l u)
  from capital_not_special [OF capital.hyps(2)] show ?case by simp
next
  case (kelvin w t)
  show ?case by (simp add: kelvin_sign_def)
qed

lemma prefix_lower_case_variant:
  "list_all plain n \<Longrightarrow> n = [] \<or> last n \<noteq> CHR ''i'' \<Longrightarrow> prefix n (lower m) \<Longrightarrow>
     \<exists>w s. m = w @ s \<and> case_variant w n"
proof (induction n arbitrary: m)
  case Nil
  have "m = [] @ m \<and> case_variant [] []" by (simp add: case_variant.empty)
  then show ?case by blast
next
  case (Cons a n')
  from Cons.prems(1) have a: "plain a" and n': "list_all plain n'" by simp_all
  from Cons.prems(2) have l': "n' = [] \<or> last n' \<noteq> CHR ''i''" by (auto split: if_splits)
  from Cons.prems(3) obtain c cs where m: "m = c # cs" by (cases m) auto
  consider (k) "prefix kelvin_sign (c # cs)"
    | (i) "\<not> prefix kelvin_sign (c # cs)" "prefix capital_i_with_dot (c # cs)"
    | (o) "\<not> prefix kelvin_sign (c # cs)" "\<not> prefix capital_i_with_dot (c # cs)"
    by blast
  then show ?case
  proof cases
    case k
    then obtain r where r: "c # cs = kelvin_sign @ r" by (auto simp: prefix_def)
    with Cons.prems(3) m lower_kelvin [of r] have ak: "a = CHR ''k''" and p: "prefix n' (lower r)"
      by simp_all
    from Cons.IH [OF n' l' p] obtain w s where "r = w @ s" "case_variant w n'" by blast
    with r m ak have "m = (kelvin_sign @ w) @ s \<and> case_variant (kelvin_sign @ w) (a # n')"
      by (simp add: case_variant.kelvin)
    then show ?thesis by blast
  next
    case i
    then obtain r where r: "c # cs = capital_i_with_dot @ r" by (auto simp: prefix_def)
    with Cons.prems(3) m lower_capital_i [of r]
    have p: "prefix (a # n') (CHR ''i'' # CHR 0xCC # CHR 0x87 # lower r)"
      by (simp add: small_i_with_dot_def)
    then have ai: "a = CHR ''i''" by simp
    show ?thesis
    proof (cases n')
      case Nil
      with ai Cons.prems(2) show ?thesis by simp
    next
      case (Cons b n'')
      with p have "b = CHR 0xCC" by simp
      moreover from n' Cons have "plain b" by simp
      ultimately show ?thesis using plain_not_special [of b] by simp
    qed
  next
    case o
    from Cons.prems(3) m lower_ordinary [OF o]
    have al: "a = lower_char c" and p: "prefix n' (lower cs)" by simp_all
    from Cons.IH [OF n' l' p] obtain w s where ws: "cs = w @ s" "case_variant w n'" by blast
    from lower_char_cases [of c] al
    have "c = a \<or> (a, c) \<in> set (zip small_letters capital_letters)" by auto
    then have "case_variant (c # w) (a # n')"
      using ws(2) by (auto intro: case_variant.same case_variant.capital)
    with ws m have "m = (c # w) @ s \<and> case_variant (c # w) (a # n')" by simp
    then show ?thesis by blast
  qed
qed

lemma sublist_lower_position:
  assumes "list_all plain n" and "n \<noteq> []"
  shows "sublist n (lower m) \<Longrightarrow> \<exists>p m'. m = p @ m' \<and> prefix n (lower m')"
proof (induction m rule: length_induct)
  case (1 m)
  from assms obtain a n' where n: "n = a # n'" and a: "plain a" by (cases n) auto
  show ?case
  proof (cases m)
    case Nil
    with "1.prems" assms show ?thesis by simp
  next
    case (Cons c cs)
    consider (k) "prefix kelvin_sign (c # cs)"
      | (i) "\<not> prefix kelvin_sign (c # cs)" "prefix capital_i_with_dot (c # cs)"
      | (o) "\<not> prefix kelvin_sign (c # cs)" "\<not> prefix capital_i_with_dot (c # cs)"
      by blast
    then show ?thesis
    proof cases
      case k
      then obtain r where r: "c # cs = kelvin_sign @ r" by (auto simp: prefix_def)
      with "1.prems" Cons lower_kelvin [of r]
      have "prefix n (lower m) \<or> sublist n (lower r)" by (simp add: sublist_Cons_right)
      then show ?thesis
      proof
        assume "prefix n (lower m)"
        then have "m = [] @ m \<and> prefix n (lower m)" by simp
        then show ?thesis by blast
      next
        assume s: "sublist n (lower r)"
        have "length r < length m" using r Cons by (simp add: kelvin_sign_def)
        with 1 s obtain p m' where "r = p @ m'" "prefix n (lower m')" by blast
        with r Cons have "m = (kelvin_sign @ p) @ m' \<and> prefix n (lower m')" by simp
        then show ?thesis by blast
      qed
    next
      case i
      then obtain r where r: "c # cs = capital_i_with_dot @ r" by (auto simp: prefix_def)
      from plain_not_special [OF a] n
      have "\<not> prefix n (CHR 0xCC # CHR 0x87 # lower r)" "\<not> prefix n (CHR 0x87 # lower r)"
        by auto
      with "1.prems" Cons r lower_capital_i [of r]
      have "prefix n (lower m) \<or> sublist n (lower r)"
        by (simp add: sublist_Cons_right small_i_with_dot_def)
      then show ?thesis
      proof
        assume "prefix n (lower m)"
        then have "m = [] @ m \<and> prefix n (lower m)" by simp
        then show ?thesis by blast
      next
        assume s: "sublist n (lower r)"
        have "length r < length m" using r Cons by (simp add: capital_i_with_dot_def)
        with 1 s obtain p m' where "r = p @ m'" "prefix n (lower m')" by blast
        with r Cons have "m = (capital_i_with_dot @ p) @ m' \<and> prefix n (lower m')" by simp
        then show ?thesis by blast
      qed
    next
      case o
      with "1.prems" Cons lower_ordinary [OF o]
      have "prefix n (lower m) \<or> sublist n (lower cs)" by (simp add: sublist_Cons_right)
      then show ?thesis
      proof
        assume "prefix n (lower m)"
        then have "m = [] @ m \<and> prefix n (lower m)" by simp
        then show ?thesis by blast
      next
        assume s: "sublist n (lower cs)"
        have "length cs < length m" using Cons by simp
        with 1 s obtain p m' where "cs = p @ m'" "prefix n (lower m')" by blast
        with Cons have "m = (c # p) @ m' \<and> prefix n (lower m')" by simp
        then show ?thesis by blast
      qed
    qed
  qed
qed

lemma contains_lower_ignoring_case:
  assumes "list_all plain n" and "n \<noteq> []" and "last n \<noteq> CHR ''i''"
  shows "contains n (lower m) \<longleftrightarrow> occurs_ignoring_case n m"
proof
  assume "contains n (lower m)"
  then have "sublist n (lower m)" by (simp add: contains_sublist)
  from sublist_lower_position [OF assms(1,2) this]
  obtain p m' where m: "m = p @ m'" and pre: "prefix n (lower m')" by blast
  from prefix_lower_case_variant [OF assms(1) _ pre] assms(3)
  obtain w s where "m' = w @ s" "case_variant w n" by blast
  with m show "occurs_ignoring_case n m" unfolding occurs_ignoring_case_def by blast
next
  assume "occurs_ignoring_case n m"
  then obtain p w s where m: "m = p @ w @ s" and cv: "case_variant w n"
    unfolding occurs_ignoring_case_def by blast
  from case_variant_hd [OF cv assms(1,2)]
  have "w @ s = [] \<or> hd (w @ s) \<notin> {CHR 0x84, CHR 0xAA, CHR 0xB0}" by simp
  then have "lower m = lower p @ lower (w @ s)" unfolding m by (rule lower_append)
  moreover from case_variant_prefix_lower [OF cv assms(1)] have "prefix n (lower (w @ s))" .
  ultimately have "sublist n (lower m)" by (auto simp: prefix_def sublist_def)
  then show "contains n (lower m)" by (simp add: contains_sublist)
qed

subsection \<open>The max-token override\<close>

lemma get_max_tokens_first_match:
  "get_max_tokens cfg =
     (if \<exists>p s. lower (model_name cfg) = p @ ''sonnet'' @ s then Some 8192
      else if \<exists>p s. lower (model_name cfg) = p @ ''gpt-4'' @ s then Some 4096
      else if \<exists>p s. lower (model_name cfg) = p @ ''gemini-2.5-pro'' @ s then Some 64000
      else if \<exists>p s. lower (model_name cfg) = p @ ''kimi-k2'' @ s then Some 8192
      else None)"
  unfolding get_max_tokens_def contains_decompose ..

lemma get_max_tokens_ignoring_case:
  "get_max_tokens cfg =
     (if occurs_ignoring_case ''sonnet'' (model_name cfg) then Some 8192
      else if occurs_ignoring_case ''gpt-4'' (model_name cfg) then Some 4096
      else if occurs_ignoring_case ''gemini-2.5-pro'' (model_name cfg) then Some 64000
      else if occurs_ignoring_case ''kimi-k2'' (model_name cfg) then Some 8192
      else None)"
proof -
  have "contains ''sonnet'' (lower m) \<longleftrightarrow> occurs_ignoring_case ''sonnet'' m" for m
    by (rule contains_lower_ignoring_case) (simp_all add: plain_def)
  moreover have "contains ''gpt-4'' (lower m) \<longleftrightarrow> occurs_ignoring_case ''gpt-4'' m" for m
    by (rule contains_lower_ignoring_case) (simp_all add: plain_def)
  moreover have "contains ''gemini-2.5-pro'' (lower m) \<longleftrightarrow>
      occurs_ignoring_case ''gemini-2.5-pro'' m" for m
    by (rule contains_lower_ignoring_case) (simp_all add: plain_def)
  moreover have "contains ''kimi-k2'' (lower m) \<longleftrightarrow> occurs_ignoring_case ''kimi-k2'' m" for m
    by (rule contains_lower_ignoring_case) (simp_all add: plain_def)
  ultimately show ?thesis by (simp only: get_max_tokens_def)
qed

text \<open>
  C4. \<^verbatim>\<open>get_max_tokens\<close> depends on the model name alone (two configurations with the
  same model name get the same answer). It is a first-match lookup by case-insensitive
  substring: the words \<^verbatim>\<open>sonnet\<close>, \<^verbatim>\<open>gpt-4\<close>, \<^verbatim>\<open>gemini-2.5-pro\<close>,
  \<^verbatim>\<open>kimi-k2\<close> are looked for in this order, each one in any mixture of small and
  capital letters (\<open>occurs_ignoring_case\<close>, which does not mention \<open>lower\<close>), and the
  first one that occurs in the name decides: 8192, 4096, 64000, 8192; a name in which none
  occurs gives \<^verbatim>\<open>None\<close>. The same lookup, read on the lower-cased name. The five names
  of the specification evaluate as it says. A name in capital letters is matched
  (\<^verbatim>\<open>OPENAI/GPT-4-TURBO\<close>, \<^verbatim>\<open>Claude-3-SONNET\<close>, \<^verbatim>\<open>GEMINI-2.5-PRO\<close>,
  \<^verbatim>\<open>Moonshot/Kimi-K2\<close>), also \<^verbatim>\<open>Kimi-K2\<close> written with Kelvin signs; a name with
  both \<^verbatim>\<open>gpt-4\<close> and \<^verbatim>\<open>sonnet\<close> gets the \<^verbatim>\<open>sonnet\<close> value whatever their
  positions and case; a capital I with a dot above is not a variant of \<^verbatim>\<open>i\<close>.
\<close>

theorem get_max_tokens_lookup:
  "get_max_tokens cfg =
       (if occurs_ignoring_case ''sonnet'' (model_name cfg) then Some 8192
        else if occurs_ignoring_case ''gpt-4'' (model_name cfg) then Some 4096
        else if occurs_ignoring_case ''gemini-2.5-pro'' (model_name cfg) then Some 64000
        else if occurs_ignoring_case ''kimi-k2'' (model_name cfg) then Some 8192
        else None)
   \<and> get_max_tokens cfg =
       (if \<exists>p s. lower (model_name cfg) = p @ ''sonnet'' @ s then Some 8192
        else if \<exists>p s. lower (model_name cfg) = p @ ''gpt-4'' @ s then Some 4096
        else if \<exists>p s. lower (model_name cfg) = p @ ''gemini-2.5-pro'' @ s then Some 64000
        else if \<exists>p s. lower (model_name cfg) = p @ ''kimi-k2'' @ s then Some 8192
        else None)
   \<and> get_max_tokens (cfg'\<lparr>model_name := model_name cfg\<rparr>) = get_max_tokens cfg
   \<and> get_max_tokens (cfg\<lparr>model_name := ''claude-3-sonnet''\<rparr>) = Some 8192
   \<and> get_max_tokens (cfg\<lparr>model_name := ''gpt-4-turbo''\<rparr>) = Some 4096
   \<and> get_max_tokens (cfg\<lparr>model_name := ''gemini-2.5-pro-exp''\<rparr>) = Some 64000
   \<and> get_max_tokens (cfg\<lparr>model_name := ''anthropic/kimi-k2''\<rparr>) = Some 8192
   \<and> get_max_tokens (cfg\<lparr>model_name := ''gpt-5-mini''\<rparr>) = None
   \<and> get_max_tokens (cfg\<lparr>model_name := ''GPT-4 via Sonnet''\<rparr>) = Some 8192
   \<and> get_max_tokens (cfg\<lparr>model_name := ''Claude-3-SONNET''\<rparr>) = Some 8192
   \<and> get_max_tokens (cfg\<lparr>model_name := ''OPENAI/GPT-4-TURBO''\<rparr>) = Some 4096
   \<and> get_max_tokens (cfg\<lparr>model_name := ''GEMINI-2.5-PRO''\<rparr>) = Some 64000
   \<and> get_max_tokens (cfg\<lparr>model_name := ''Moonshot/Kimi-K2''\<rparr>) = Some 8192
   \<and> get_max_tokens (cfg\<lparr>model_name := kelvin_sign @ ''imi-'' @ kelvin_sign @ ''2''\<rparr>) = Some 8192
   \<and> get_max_tokens (cfg\<lparr>model_name := ''K'' @ capital_i_with_dot @ ''M'' @ capital_i_with_dot @ ''-K2''\<rparr>) = None"
proof (intro conjI)
  show "get_max_tokens cfg =
       (if occurs_ignoring_case ''sonnet'' (model_name cfg) then Some 8192
        else if occurs_ignoring_case ''gpt-4'' (model_name cfg) then Some 4096
        else if occurs_ignoring_case ''gemini-2.5-pro'' (model_name cfg) then Some 64000
        else if occurs_ignoring_case ''kimi-k2'' (model_name cfg) then Some 8192
        else None)"
    by (rule get_max_tokens_ignoring_case)
  show "get_max_tokens cfg =
       (if \<exists>p s. lower (model_name cfg) = p @ ''sonnet'' @ s then Some 8192
        else if \<exists>p s. lower (model_name cfg) = p @ ''gpt-4'' @ s then Some 4096
        else if \<exists>p s. lower (model_name cfg) = p @ ''gemini-2.5-pro'' @ s then Some 64000
        else if \<exists>p s. lower (model_name cfg) = p @ ''kimi-k2'' @ s then Some 8192
        else None)"
    by (rule get_max_tokens_first_match)
qed (simp_all add: get_max_tokens_def lower.simps(1,2) lower_char_def char_of_def kelvin_sign_def
       capital_i_with_dot_def small_i_with_dot_def)

subsection \<open>The run loop\<close>

lemma run_loop_stop:
  "\<not> (continue_execution st \<and> int (iteration_count st) < max_iterations cfg) \<Longrightarrow>
     run_loop L C cfg sm st = (ConditionFalse, st)"
  by (subst run_loop.simps) auto

lemma run_loop_break:
  "continue_execution st \<Longrightarrow> int (iteration_count st) < max_iterations cfg \<Longrightarrow>
     loop_body L C cfg sm st = (True, st') \<Longrightarrow> run_loop L C cfg sm st = (Break, st')"
  by (subst run_loop.simps) simp

lemma run_loop_continue:
  "continue_execution st \<Longrightarrow> int (iteration_count st) < max_iterations cfg \<Longrightarrow>
     loop_body L C cfg sm st = (False, st') \<Longrightarrow> run_loop L C cfg sm st = run_loop L C cfg sm st'"
  by (subst run_loop.simps) simp

text \<open>The run from \<open>st0\<close> is the run from any of its loop heads.\<close>

lemma run_loop_loop_head:
  "loop_head L C cfg sm st0 st \<Longrightarrow> run_loop L C cfg sm st0 = run_loop L C cfg sm st"
proof (induction rule: loop_head.induct)
  case start
  show ?case ..
next
  case (step st st')
  then show ?case by (simp add: run_loop_continue)
qed

lemma loop_head_trans:
  "loop_head L C cfg sm st1 st2 \<Longrightarrow> loop_head L C cfg sm st0 st1 \<Longrightarrow> loop_head L C cfg sm st0 st2"
proof (induction rule: loop_head.induct)
  case start
  then show ?case .
next
  case (step s s')
  then show ?case by (auto intro: loop_head.step)
qed

lemma loop_head_iteration_count:
  "loop_head L C cfg sm st0 st \<Longrightarrow>
     int (iteration_count st) \<le> max (int (iteration_count st0)) (max_iterations cfg)"
proof (induction rule: loop_head.induct)
  case start
  show ?case by simp
next
  case (step st st')
  have "iteration_count (snd (loop_body L C cfg sm st)) = iteration_count st + 1"
    by (rule loop_body_iteration_count)
  with step show ?case by simp
qed

lemma run_loop_iteration_count:
  "int (iteration_count (snd (run_loop L C cfg sm st)))
     \<le> max (int (iteration_count st)) (max_iterations cfg)"
proof (induction L C cfg sm st rule: run_loop.induct)
  case (1 L C cfg sm st)
  show ?case
  proof (cases "continue_execution st \<and> int (iteration_count st) < max_iterations cfg")
    case False
    then show ?thesis by (simp add: run_loop_stop)
  next
    case True
    obtain left st' where body: "loop_body L C cfg sm st = (left, st')"
      by (cases "loop_body L C cfg sm st")
    have count: "iteration_count st' = iteration_count st + 1"
      using loop_body_iteration_count [of L C cfg sm st] body by simp
    show ?thesis
    proof (cases left)
      case True
      with \<open>continue_execution st \<and> int (iteration_count st) < max_iterations cfg\<close> body count
      show ?thesis by (simp add: run_loop_break)
    next
      case False
      with 1 [OF True body [symmetric]] True body count
      show ?thesis by (simp add: run_loop_continue)
    qed
  qed
qed

text \<open>A run that ends because the loop condition fails ends at one of its loop heads.\<close>

lemma run_loop_condition_false_loop_head:
  "run_loop L C cfg sm st = (ConditionFalse, st') \<Longrightarrow>
     loop_head L C cfg sm st st'
     \<and> \<not> (continue_execution st' \<and> int (iteration_count st') < max_iterations cfg)"
proof (induction L C cfg sm st rule: run_loop.induct)
  case (1 L C cfg sm st)
  show ?case
  proof (cases "continue_execution st \<and> int (iteration_count st) < max_iterations cfg")
    case False
    with "1.prems" have "st' = st" by (simp add: run_loop_stop)
    with False show ?thesis by (auto intro: loop_head.start)
  next
    case True
    obtain left st1 where body: "loop_body L C cfg sm st = (left, st1)"
      by (cases "loop_body L C cfg sm st")
    show ?thesis
    proof (cases left)
      case True
      with \<open>continue_execution st \<and> int (iteration_count st) < max_iterations cfg\<close> body "1.prems"
      show ?thesis by (simp add: run_loop_break)
    next
      case False
      with True body "1.prems" have r: "run_loop L C cfg sm st1 = (ConditionFalse, st')"
        by (simp add: run_loop_continue)
      from "1.IH" [OF True body [symmetric] _ r] False
      have ih: "loop_head L C cfg sm st1 st'"
        and stop: "\<not> (continue_execution st' \<and> int (iteration_count st') < max_iterations cfg)"
        by simp_all
      have first: "loop_head L C cfg sm st st1"
        using True body False by (auto intro: loop_head.step loop_head.start)
      from loop_head_trans [OF ih first] stop show ?thesis by simp
    qed
  qed
qed

lemma set_chunks_of: "c \<in> set (chunks_of es) \<longleftrightarrow> Chunk c \<in> set es"
  by (induction es rule: chunks_of.induct) auto

lemma consume_stream_completed:
  "consume_stream L events ss out = (None, ss', out') \<Longrightarrow>
     out' = out @ chunks_of events \<and> (\<forall>m. StreamRaises m \<notin> set events)"
proof (induction L events ss out rule: consume_stream.induct)
  case (1 L st out)
  then show ?case by simp
next
  case (2 L msg rest st out)
  then show ?case by simp
next
  case (3 L chunk rest st out)
  then show ?case by (cases "process_chunk L chunk st") auto
qed

text \<open>
  The loop goes on after the call of \<^verbatim>\<open>run_thread\<close> only when the call returned a
  stream that ended without raising; the chunks yielded are then the chunks of the stream.
\<close>

lemma handle_response_continues:
  assumes "handle_response L resp st = (False, st')"
  shows "\<exists>events. resp = Stream events \<and> (\<forall>m. StreamRaises m \<notin> set events)
            \<and> yielded st' = yielded st @ chunks_of events"
proof (cases resp)
  case (RunThreadRaises m)
  with assms show ?thesis by (simp add: handle_response_def)
next
  case (Returned v)
  with assms show ?thesis by (simp add: handle_response_def split: if_splits)
next
  case (Stream events)
  obtain r ss out where c: "consume_stream L events initial_stream_state [] = (r, ss, out)"
    by (cases "consume_stream L events initial_stream_state []")
  show ?thesis
  proof (cases r)
    case None
    with c consume_stream_completed [of L events initial_stream_state "[]" ss out]
    have "out = chunks_of events" "\<forall>m. StreamRaises m \<notin> set events" by simp_all
    with assms Stream c None show ?thesis
      by (auto simp: handle_response_def split: if_splits)
  next
    case (Some m)
    with assms Stream c show ?thesis by (simp add: handle_response_def)
  qed
qed

lemma loop_body_continues:
  assumes "loop_body L C cfg sm st = (False, st')"
  shows "\<exists>args rws events rws'.
           run_thread C (iteration_count st + 1) args rws = (Stream events, rws')
           \<and> yielded st' = yielded st @ chunks_of events"
proof -
  obtain can_run m where b: "check_billing_status C (iteration_count st + 1) = (can_run, m)"
    by (cases "check_billing_status C (iteration_count st + 1)")
  obtain tmp store1 where t:
    "build_temporary_message L (thread_id cfg) (model_name cfg) (store st) = (tmp, store1)"
    by (cases "build_temporary_message L (thread_id cfg) (model_name cfg) (store st)")
  obtain resp store2 where r:
    "run_thread C (iteration_count st + 1) (make_run_thread_args cfg sm tmp) store1 = (resp, store2)"
    by (cases "run_thread C (iteration_count st + 1) (make_run_thread_args cfg sm tmp) store1")
  from assms b t r
  have "handle_response L resp
          (st\<lparr>iteration_count := iteration_count st + 1, store := store2,
              run_thread_calls := run_thread_calls st @ [make_run_thread_args cfg sm tmp]\<rparr>)
        = (False, st')"
    by (simp add: loop_body_def Let_def split: if_splits)
  from handle_response_continues [OF this] r show ?thesis by auto
qed

lemma loop_head_relayed:
  "loop_head L C cfg sm st0 st \<Longrightarrow>
     \<forall>c \<in> set (yielded st). c \<in> set (yielded st0)
        \<or> (\<exists>i args rws events rws'. run_thread C i args rws = (Stream events, rws') \<and> Chunk c \<in> set events)"
proof (induction rule: loop_head.induct)
  case start
  show ?case by simp
next
  case (step st st')
  from loop_body_continues [OF step.hyps(4)] obtain args rws events rws'
    where rt: "run_thread C (iteration_count st + 1) args rws = (Stream events, rws')"
      and y: "yielded st' = yielded st @ chunks_of events"
    by blast
  show ?case
  proof
    fix c assume "c \<in> set (yielded st')"
    with y consider "c \<in> set (yielded st)" | "Chunk c \<in> set events"
      by (auto simp: set_chunks_of)
    then show "c \<in> set (yielded st0)
        \<or> (\<exists>i args rws events rws'. run_thread C i args rws = (Stream events, rws') \<and> Chunk c \<in> set events)"
    proof cases
      case 1
      with step.IH show ?thesis by blast
    next
      case 2
      with rt show ?thesis by blast
    qed
  qed
qed

lemma loop_body_billing:
  assumes "check_billing_status C (iteration_count st + 1) = (False, m)"
  shows "loop_body L C cfg sm st =
    (True, st\<lparr>iteration_count := iteration_count st + 1,
              yielded := yielded st @ [status_chunk ''stopped'' (''Billing limit reached: '' @ m)]\<rparr>)"
  using assms by (simp add: loop_body_def Let_def)

lemma loop_body_assistant:
  assumes "fst (check_billing_status C (iteration_count st + 1))"
    and "select_latest (store st) (thread_id cfg) [''assistant'', ''tool'', ''user''] = Some r"
    and "row_type r = ''assistant''"
  shows "loop_body L C cfg sm st =
    (True, st\<lparr>iteration_count := iteration_count st + 1, continue_execution := False\<rparr>)"
  using assms
  by (cases "check_billing_status C (iteration_count st + 1)") (simp add: loop_body_def Let_def)

text \<open>
  C1. Take any run and any state \<open>st\<close> in which it stands at the head of the loop and
  enters the body. If the billing check of that iteration passes and the query for the
  most recent message of type assistant, tool or user returns a row of type
  \<^verbatim>\<open>assistant\<close>, the whole run ends by the \<^verbatim>\<open>break\<close> of that iteration: its final state
  is \<open>st\<close> with the counter incremented and \<open>continue_execution\<close> false. The calls of
  \<^verbatim>\<open>run_thread\<close> (and the chunks yielded) of the finished run are those made before the
  iteration: none is made on it or after it.
\<close>

theorem last_message_assistant_stops:
  assumes "loop_head L C cfg sm st0 st"
    and "continue_execution st" and "int (iteration_count st) < max_iterations cfg"
    and "fst (check_billing_status C (iteration_count st + 1))"
    and "select_latest (store st) (thread_id cfg) [''assistant'', ''tool'', ''user''] = Some r"
    and "row_type r = ''assistant''"
  shows "run_loop L C cfg sm st0 =
           (Break, st\<lparr>iteration_count := iteration_count st + 1, continue_execution := False\<rparr>)
         \<and> run_thread_calls (snd (run_loop L C cfg sm st0)) = run_thread_calls st
         \<and> yielded (snd (run_loop L C cfg sm st0)) = yielded st"
proof -
  have "run_loop L C cfg sm st0 = run_loop L C cfg sm st"
    using assms(1) by (rule run_loop_loop_head)
  also have "\<dots> = (Break, st\<lparr>iteration_count := iteration_count st + 1, continue_execution := False\<rparr>)"
    using assms(2,3) loop_body_assistant [OF assms(4,5,6)] by (rule run_loop_break)
  finally show ?thesis by simp
qed

theorem last_message_assistant_stops_witness:
  "select_latest [user_hello, assistant_reply] ''t1'' [''assistant'', ''tool'', ''user''] = Some assistant_reply
   \<and> run_loop example_pylib
       \<lparr>check_billing_status = billing_ok, run_thread = engine_returning (Stream [])\<rparr>
       example_config example_system_message (initial_loop_state [user_hello, assistant_reply])
     = (Break, \<lparr>iteration_count = 1, continue_execution = False,
                store = [user_hello, assistant_reply], yielded = [], run_thread_calls = []\<rparr>)"
  using last_message_assistant_stops
    [of example_pylib "\<lparr>check_billing_status = billing_ok, run_thread = engine_returning (Stream [])\<rparr>"
      example_config example_system_message "initial_loop_state [user_hello, assistant_reply]"
      "initial_loop_state [user_hello, assistant_reply]" assistant_reply, OF loop_head.start]
  by (simp add: initial_loop_state_def example_config_def billing_ok_def select_latest_def
      user_hello_def assistant_reply_def)

text \<open>
  C5. Take any run and any state \<open>st\<close> in which it stands at the head of the loop and
  enters the body. If the billing check of that iteration returns \<^verbatim>\<open>can_run=False\<close> with
  the message \<open>m\<close>, the whole run ends by the \<^verbatim>\<open>break\<close> of that iteration, having
  yielded exactly one chunk more than before,
  \<^verbatim>\<open>{"type": "status", "status": "stopped", "message": "Billing limit reached: " + m}\<close>,
  and its calls of \<^verbatim>\<open>run_thread\<close> are those made before the iteration.
\<close>

theorem billing_rejection_stops:
  assumes "loop_head L C cfg sm st0 st"
    and "continue_execution st" and "int (iteration_count st) < max_iterations cfg"
    and "check_billing_status C (iteration_count st + 1) = (False, m)"
  shows "run_loop L C cfg sm st0 =
           (Break, st\<lparr>iteration_count := iteration_count st + 1,
                      yielded := yielded st @
                        [JObj [(''type'', JStr ''status''), (''status'', JStr ''stopped''),
                               (''message'', JStr (''Billing limit reached: '' @ m))]]\<rparr>)
         \<and> run_thread_calls (snd (run_loop L C cfg sm st0)) = run_thread_calls st"
proof -
  have "run_loop L C cfg sm st0 = run_loop L C cfg sm st"
    using assms(1) by (rule run_loop_loop_head)
  also have "\<dots> = (Break, st\<lparr>iteration_count := iteration_count st + 1,
                      yielded := yielded st @
                        [status_chunk ''stopped'' (''Billing limit reached: '' @ m)]\<rparr>)"
    using assms(2,3) loop_body_billing [OF assms(4)] by (rule run_loop_break)
  finally show ?thesis by (simp add: status_chunk_def)
qed

theorem billing_rejection_stops_witness:
  "run_loop example_pylib
       \<lparr>check_billing_status = (\<lambda>i. (False, ''quota exceeded'')),
        run_thread = engine_returning (Stream [])\<rparr>
       example_config example_system_message (initial_loop_state [user_hello])
     = (Break, \<lparr>iteration_count = 1, continue_execution = True, store = [user_hello],
                yielded = [JObj [(''type'', JStr ''status''), (''status'', JStr ''stopped''),
                                 (''message'', JStr ''Billing limit reached: quota exceeded'')]],
                run_thread_calls = []\<rparr>)"
  using billing_rejection_stops
    [of example_pylib "\<lparr>check_billing_status = (\<lambda>i. (False, ''quota exceeded'')),
        run_thread = engine_returning (Stream [])\<rparr>"
      example_config example_system_message "initial_loop_state [user_hello]"
      "initial_loop_state [user_hello]" "''quota exceeded''", OF loop_head.start]
  by (simp add: initial_loop_state_def example_config_def)

text \<open>
  C2. The counter \<open>iteration_count\<close> starts at 0 and every execution of the loop body adds
  exactly one to it (\<open>loop_body_iteration_count\<close>), so it counts the executions of the
  body. For every \<^verbatim>\<open>max_iterations\<close> = N, in every run from the initial state: at every
  loop head, and at the end of the run, the counter is at most N (at most 0 when N is
  negative). When the run stands at a loop head with \<open>continue_execution\<close> still true and
  the counter at N, it is over, and the final state is that state as it is: reaching the
  limit yields nothing. Every chunk yielded up to a loop head was relayed from a stream
  that \<^verbatim>\<open>run_thread\<close> returned, so a run that ends at the limit has yielded no chunk made
  by the runner itself.
\<close>

theorem iteration_limit:
  assumes "loop_head L C cfg sm (initial_loop_state rows) st"
  shows "int (iteration_count st) \<le> max 0 (max_iterations cfg)
       \<and> int (iteration_count (snd (run_loop L C cfg sm (initial_loop_state rows))))
           \<le> max 0 (max_iterations cfg)
       \<and> (continue_execution st \<and> max_iterations cfg \<le> int (iteration_count st) \<longrightarrow>
            run_loop L C cfg sm (initial_loop_state rows) = (ConditionFalse, st))
       \<and> (\<forall>c \<in> set (yielded st).
            \<exists>i args rws events rws'.
              run_thread C i args rws = (Stream events, rws') \<and> Chunk c \<in> set events)"
proof (intro conjI impI)
  show "int (iteration_count st) \<le> max 0 (max_iterations cfg)"
    using loop_head_iteration_count [OF assms] by (simp add: initial_loop_state_def)
  show "int (iteration_count (snd (run_loop L C cfg sm (initial_loop_state rows))))
           \<le> max 0 (max_iterations cfg)"
    using run_loop_iteration_count [of L C cfg sm "initial_loop_state rows"]
    by (simp add: initial_loop_state_def)
  show "run_loop L C cfg sm (initial_loop_state rows) = (ConditionFalse, st)"
    if "continue_execution st \<and> max_iterations cfg \<le> int (iteration_count st)"
    using that run_loop_loop_head [OF assms] by (simp add: run_loop_stop)
  show "\<forall>c \<in> set (yielded st).
            \<exists>i args rws events rws'.
              run_thread C i args rws = (Stream events, rws') \<and> Chunk c \<in> set events"
    using loop_head_relayed [OF assms] by (simp add: initial_loop_state_def)
qed

theorem iteration_limit_witness:
  "loop_head example_pylib relaying two_iterations example_system_message (initial_loop_state [user_hello])
     \<lparr>iteration_count = 2, continue_execution = True, store = [user_hello],
      yielded = [working_chunk, working_chunk],
      run_thread_calls =
        [make_run_thread_args two_iterations example_system_message None,
         make_run_thread_args two_iterations example_system_message None]\<rparr>
   \<and> max_iterations two_iterations = 2
   \<and> run_loop example_pylib relaying two_iterations example_system_message (initial_loop_state [user_hello])
     = (ConditionFalse,
        \<lparr>iteration_count = 2, continue_execution = True, store = [user_hello],
         yielded = [working_chunk, working_chunk],
         run_thread_calls =
           [make_run_thread_args two_iterations example_system_message None,
            make_run_thread_args two_iterations example_system_message None]\<rparr>)"
proof -
  let ?a = "make_run_thread_args two_iterations example_system_message None"
  let ?st1 = "\<lparr>iteration_count = 1, continue_execution = True, store = [user_hello],
      yielded = [working_chunk], run_thread_calls = [?a]\<rparr>"
  let ?st2 = "\<lparr>iteration_count = 2, continue_execution = True, store = [user_hello],
      yielded = [working_chunk, working_chunk], run_thread_calls = [?a, ?a]\<rparr>"
  have body1: "loop_body example_pylib relaying two_iterations example_system_message
      (initial_loop_state [user_hello]) = (False, ?st1)"
    by (simp add: loop_body_def initial_loop_state_def two_iterations_def example_config_def
        relaying_def billing_ok_def working_chunk_def
        engine_returning_def select_latest_def user_hello_def build_temporary_message_def
        handle_response_def process_chunk_def assistant_chunk_update_def dict_get_def
        loads_if_str_def example_pylib_def example_loads_def initial_stream_state_def Let_def)
  have body2: "loop_body example_pylib relaying two_iterations example_system_message ?st1
      = (False, ?st2)"
    by (simp add: loop_body_def two_iterations_def example_config_def
        relaying_def billing_ok_def working_chunk_def
        engine_returning_def select_latest_def user_hello_def build_temporary_message_def
        handle_response_def process_chunk_def assistant_chunk_update_def dict_get_def
        loads_if_str_def example_pylib_def example_loads_def initial_stream_state_def Let_def)
  have h1: "loop_head example_pylib relaying two_iterations example_system_message
      (initial_loop_state [user_hello]) ?st1"
    by (rule loop_head.step [OF loop_head.start _ _ body1])
       (simp_all add: initial_loop_state_def two_iterations_def example_config_def)
  have h2: "loop_head example_pylib relaying two_iterations example_system_message
      (initial_loop_state [user_hello]) ?st2"
    by (rule loop_head.step [OF h1 _ _ body2]) (simp_all add: two_iterations_def example_config_def)
  from iteration_limit [OF h2] h2 show ?thesis
    by (simp add: two_iterations_def example_config_def)
qed

subsection \<open>Closing markers\<close>

text \<open>
  C3. Take a chunk of type \<^verbatim>\<open>assistant\<close> with a \<^verbatim>\<open>content\<close> that is, or parses to, a
  dict whose \<^verbatim>\<open>content\<close> is the string \<open>text\<close>. If \<open>text\<close> contains at least one of
  \<^verbatim>\<open></ask>\<close>, \<^verbatim>\<open></complete>\<close>, \<^verbatim>\<open></web-browser-takeover>\<close>, processing the chunk
  does not raise and sets \<open>last_tool_call\<close> to \<^verbatim>\<open>ask\<close> when \<^verbatim>\<open></ask>\<close> occurs,
  otherwise to \<^verbatim>\<open>complete\<close> when \<^verbatim>\<open></complete>\<close> occurs, otherwise to
  \<^verbatim>\<open>web-browser-takeover\<close>. The witness is the fragment \<^verbatim>\<open>a</ask>b</complete>\<close>,
  which gives \<^verbatim>\<open>ask\<close>.
\<close>

theorem closing_marker_priority:
  assumes "map_of c ''type'' = Some (JStr ''assistant'')"
    and "map_of c ''content'' = Some raw"
    and "loads_if_str L raw = Some (JObj j)"
    and "map_of j ''content'' = Some (JStr text)"
    and "sublist ''</ask>'' text \<or> sublist ''</complete>'' text
         \<or> sublist ''</web-browser-takeover>'' text"
  shows "\<exists>st'. process_chunk L (JObj c) st = Inr st' \<and>
           last_tool_call st' =
             JStr (if sublist ''</ask>'' text then ''ask''
                   else if sublist ''</complete>'' text then ''complete''
                   else ''web-browser-takeover'')"
  using assms
  by (auto simp: process_chunk_def assistant_chunk_update_def dict_get_def Let_def contains_sublist)

theorem closing_marker_priority_witness:
  "ask_complete_chunk = JObj [(''type'', JStr ''assistant''), (''content'', JStr ''{\"content\":\"a</ask>b</complete>\"}'')]
   \<and> json_loads example_pylib ''{\"content\":\"a</ask>b</complete>\"}''
       = Some (JObj [(''content'', JStr ''a</ask>b</complete>'')])
   \<and> sublist ''</ask>'' ''a</ask>b</complete>'' \<and> sublist ''</complete>'' ''a</ask>b</complete>''
   \<and> (\<exists>st'. process_chunk example_pylib ask_complete_chunk initial_stream_state = Inr st'
          \<and> last_tool_call st' = JStr ''ask'')"
proof -
  have s: "sublist ''</ask>'' ''a</ask>b</complete>''" "sublist ''</complete>'' ''a</ask>b</complete>''"
    by (simp_all flip: contains_sublist)
  have l: "json_loads example_pylib ''{\"content\":\"a</ask>b</complete>\"}''
       = Some (JObj [(''content'', JStr ''a</ask>b</complete>'')])"
    by (simp add: example_pylib_def example_loads_def)
  from closing_marker_priority
    [of "[(''type'', JStr ''assistant''), (''content'', JStr ''{\"content\":\"a</ask>b</complete>\"}'')]"
      "JStr ''{\"content\":\"a</ask>b</complete>\"}''" example_pylib
      "[(''content'', JStr ''a</ask>b</complete>'')]" "''a</ask>b</complete>''" initial_stream_state]
    s l
  show ?thesis by (simp add: ask_complete_chunk_def loads_if_str_def)
qed

text \<open>
  The end-to-end scenario of the specification: one user message, \<^verbatim>\<open>max_iterations=3\<close>,
  billing always passes and the engine answers with the one chunk
  \<^verbatim>\<open>{"type":"assistant","content":"{\"content\":\"Hi there</complete>\"}"}\<close>. One
  iteration runs, the chunk is yielded, and the loop condition fails.
\<close>

lemma end_to_end_complete:
  "run_loop example_pylib
     \<lparr>check_billing_status = billing_ok, run_thread = engine_returning (Stream [Chunk complete_chunk])\<rparr>
     example_config example_system_message (initial_loop_state [user_hello])
   = (ConditionFalse,
      \<lparr>iteration_count = 1, continue_execution = False, store = [user_hello],
       yielded = [complete_chunk],
       run_thread_calls = [make_run_thread_args example_config example_system_message None]\<rparr>)"
  by (simp add: run_loop.simps loop_body_def initial_loop_state_def example_config_def
        billing_ok_def complete_chunk_def
        engine_returning_def select_latest_def user_hello_def build_temporary_message_def
        handle_response_def process_chunk_def assistant_chunk_update_def dict_get_def
        loads_if_str_def example_pylib_def example_loads_def initial_stream_state_def Let_def)

subsection \<open>Stops without a status chunk\<close>

text \<open>
  When \<^verbatim>\<open>run_thread\<close> returns a value that is not a stream and is not error-shaped,
  the body sets \<^verbatim>\<open>error_detected\<close> and leaves the loop: the call is recorded and nothing
  is yielded.
\<close>

lemma handle_response_not_a_stream:
  "\<not> error_shaped v \<Longrightarrow> handle_response L (Returned v) st = (True, st)"
  by (simp add: handle_response_def)

text \<open>
  C6. The run below is the one in which the engine returns the dict
  \<^verbatim>\<open>{"status": "failed", "message": "engine unavailable"}\<close>: it is neither error-shaped
  (its status is not \<^verbatim>\<open>error\<close>) nor a stream. The run calls \<^verbatim>\<open>run_thread\<close> once,
  leaves the loop by \<^verbatim>\<open>break\<close> and has yielded no chunk at all.
\<close>

theorem non_stream_response_ends_silently:
  "run_loop example_pylib not_a_stream example_config example_system_message
     (initial_loop_state [user_hello])
   = (Break,
      \<lparr>iteration_count = 1, continue_execution = True, store = [user_hello], yielded = [],
       run_thread_calls = [make_run_thread_args example_config example_system_message None]\<rparr>)"
  by (simp add: run_loop.simps loop_body_def initial_loop_state_def example_config_def
        not_a_stream_def billing_ok_def engine_returning_def select_latest_def user_hello_def
        build_temporary_message_def handle_response_def error_shaped_def)

subsection \<open>Disabled tools\<close>

lemma is_tool_enabled_falsy:
  "\<not> truthy (is_tool_enabled raw_tools t) \<longleftrightarrow>
     (map_of raw_tools t = Some (JBool False)
      \<or> (\<exists>d v. map_of raw_tools t = Some (JObj d) \<and> map_of d ''enabled'' = Some v \<and> \<not> truthy v))"
  by (auto simp: is_tool_enabled_def dict_get_def split: option.splits json.splits)

lemma presentation_sub_tools_not_listed:
  "''sb_presentation_outline_tool'' \<notin> set all_tools" "''sb_presentation_tool_v2'' \<notin> set all_tools"
  by (simp_all add: all_tools_def)

lemma get_disabled_tools_from_config_dict:
  assumes "map_of ac ''agentpress_tools'' = Some (JObj raw_tools)"
  shows "get_disabled_tools_from_config (Some ac) =
     (if truthy (dict_get ac ''is_suna_default'' (JBool False)) \<and> raw_tools = [] then []
      else filter (\<lambda>t. \<not> truthy (is_tool_enabled raw_tools t)) all_tools @
        (if \<not> truthy (is_tool_enabled raw_tools ''sb_presentation_tool'')
         then [''sb_presentation_outline_tool'', ''sb_presentation_tool_v2''] else []))"
proof -
  have ne: "ac \<noteq> []" using assms by auto
  have pres: "''sb_presentation_tool'' \<in> set all_tools" by (simp add: all_tools_def)
  show ?thesis
    using assms ne pres by (simp add: get_disabled_tools_from_config_def Let_def)
qed

text \<open>
  What the function computes. Let the agent definition hold a dict under
  \<^verbatim>\<open>agentpress_tools\<close>. A tool name of the list \<^verbatim>\<open>all_tools\<close> is in the disabled list
  exactly when its entry is the boolean \<^verbatim>\<open>false\<close>, or is an object that has a key
  \<^verbatim>\<open>enabled\<close> whose value tests false (\<^verbatim>\<open>false\<close>, \<^verbatim>\<open>null\<close>, \<^verbatim>\<open>0\<close>, an empty
  string, list or object). The map
  \<^verbatim>\<open>{sb_shell_tool: {enabled: false}, sb_files_tool: true}\<close> gives exactly
  \<^verbatim>\<open>[sb_shell_tool]\<close>.
\<close>

lemma disabled_tools_derivation:
  assumes "map_of ac ''agentpress_tools'' = Some (JObj raw_tools)"
  shows "(\<forall>t \<in> set all_tools.
            t \<in> set (get_disabled_tools_from_config (Some ac)) \<longleftrightarrow>
              (map_of raw_tools t = Some (JBool False)
               \<or> (\<exists>d v. map_of raw_tools t = Some (JObj d) \<and> map_of d ''enabled'' = Some v
                          \<and> \<not> truthy v)))
         \<and> get_disabled_tools_from_config
             (Some [(''agentpress_tools'',
                JObj [(''sb_shell_tool'', JObj [(''enabled'', JBool False)]),
                      (''sb_files_tool'', JBool True)])]) = [''sb_shell_tool'']"
proof (intro conjI ballI)
  fix t assume t: "t \<in> set all_tools"
  have "raw_tools = [] \<Longrightarrow> truthy (is_tool_enabled raw_tools t)"
    by (simp add: is_tool_enabled_def dict_get_def)
  with t presentation_sub_tools_not_listed
  show "t \<in> set (get_disabled_tools_from_config (Some ac)) \<longleftrightarrow>
              (map_of raw_tools t = Some (JBool False)
               \<or> (\<exists>d v. map_of raw_tools t = Some (JObj d) \<and> map_of d ''enabled'' = Some v
                          \<and> \<not> truthy v))"
    unfolding get_disabled_tools_from_config_dict [OF assms] is_tool_enabled_falsy [symmetric]
    by auto
next
  show "get_disabled_tools_from_config
             (Some [(''agentpress_tools'',
                JObj [(''sb_shell_tool'', JObj [(''enabled'', JBool False)]),
                      (''sb_files_tool'', JBool True)])]) = [''sb_shell_tool'']"
    by (simp add: get_disabled_tools_from_config_def is_tool_enabled_def dict_get_def all_tools_def)
qed

lemma disabled_tools_derivation_example:
  "map_of [(''agentpress_tools'', JObj [(''sb_shell_tool'', JObj [(''enabled'', JInt 0)]),
                                       (''sb_files_tool'', JStr ''no''),
                                       (''browser_tool'', JBool False)])] ''agentpress_tools''
     = Some (JObj [(''sb_shell_tool'', JObj [(''enabled'', JInt 0)]),
                   (''sb_files_tool'', JStr ''no''),
                   (''browser_tool'', JBool False)])
   \<and> ''sb_shell_tool'' \<in> set (get_disabled_tools_from_config
        (Some [(''agentpress_tools'', JObj [(''sb_shell_tool'', JObj [(''enabled'', JInt 0)]),
                                           (''sb_files_tool'', JStr ''no''),
                                           (''browser_tool'', JBool False)])]))
   \<and> ''sb_files_tool'' \<notin> set (get_disabled_tools_from_config
        (Some [(''agentpress_tools'', JObj [(''sb_shell_tool'', JObj [(''enabled'', JInt 0)]),
                                           (''sb_files_tool'', JStr ''no''),
                                           (''browser_tool'', JBool False)])]))
   \<and> ''browser_tool'' \<in> set (get_disabled_tools_from_config
        (Some [(''agentpress_tools'', JObj [(''sb_shell_tool'', JObj [(''enabled'', JInt 0)]),
                                           (''sb_files_tool'', JStr ''no''),
                                           (''browser_tool'', JBool False)])]))
   \<and> ''sb_deploy_tool'' \<notin> set (get_disabled_tools_from_config
        (Some [(''agentpress_tools'', JObj [(''sb_shell_tool'', JObj [(''enabled'', JInt 0)]),
                                           (''sb_files_tool'', JStr ''no''),
                                           (''browser_tool'', JBool False)])]))"
  using disabled_tools_derivation
    [of "[(''agentpress_tools'', JObj [(''sb_shell_tool'', JObj [(''enabled'', JInt 0)]),
                                       (''sb_files_tool'', JStr ''no''),
                                       (''browser_tool'', JBool False)])]"
        "[(''sb_shell_tool'', JObj [(''enabled'', JInt 0)]),
          (''sb_files_tool'', JStr ''no''),
          (''browser_tool'', JBool False)]"]
  by (simp add: all_tools_def)

text \<open>
  C9. An entry that is absent or malformed is to leave its tool enabled: the inner function
  \<^verbatim>\<open>is_tool_enabled\<close> is annotated \<^verbatim>\<open>-> bool\<close>, and each of its other branches
  (no entry, an entry that is neither a boolean nor an object, an object without the key
  \<^verbatim>\<open>enabled\<close>, an exception) is commented \<^verbatim>\<open>Default to enabled\<close> and returns
  \<^verbatim>\<open>True\<close>. On the malformed entry \<^verbatim>\<open>{enabled: null}\<close> the function returns
  \<^verbatim>\<open>tool_config.get('enabled', True)\<close>, which is \<^verbatim>\<open>None\<close> and no boolean, the
  caller's \<^verbatim>\<open>not\<close> reads it as false, and the tool is put in the disabled list:
  \<^verbatim>\<open>{sb_shell_tool: {enabled: null}}\<close> gives \<^verbatim>\<open>[sb_shell_tool]\<close>. The same happens
  with \<^verbatim>\<open>{enabled: ""}\<close>; the malformed entries \<^verbatim>\<open>{}\<close>, \<^verbatim>\<open>"off"\<close> and
  \<^verbatim>\<open>null\<close> leave their tools enabled, and the map
  \<^verbatim>\<open>{sb_shell_tool: {enabled: false}, sb_files_tool: true}\<close> gives \<^verbatim>\<open>[sb_shell_tool]\<close>.
\<close>

theorem disabled_tools_null_entry:
  "is_tool_enabled [(''sb_shell_tool'', JObj [(''enabled'', JNull)])] ''sb_shell_tool'' = JNull
   \<and> get_disabled_tools_from_config
        (Some [(''agentpress_tools'', JObj [(''sb_shell_tool'', JObj [(''enabled'', JNull)])])])
      = [''sb_shell_tool'']
   \<and> get_disabled_tools_from_config
        (Some [(''agentpress_tools'', JObj [(''sb_files_tool'', JObj [(''enabled'', JStr [])])])])
      = [''sb_files_tool'']
   \<and> get_disabled_tools_from_config
        (Some [(''agentpress_tools'',
           JObj [(''sb_shell_tool'', JObj [(''enabled'', JBool False)]),
                 (''sb_files_tool'', JBool True)])])
      = [''sb_shell_tool'']
   \<and> get_disabled_tools_from_config
        (Some [(''agentpress_tools'',
           JObj [(''sb_shell_tool'', JObj []), (''sb_files_tool'', JStr ''off''),
                 (''browser_tool'', JNull)])])
      = []"
  by (simp add: get_disabled_tools_from_config_def is_tool_enabled_def dict_get_def all_tools_def)

subsection \<open>The temporary message\<close>

lemma image_context_blocks_dict:
  assumes "dict_or_loads L content = Some (JObj d)"
  shows "image_context_blocks L content =
    (if truthy (dict_get d ''base64'' JNull) \<and> truthy (dict_get d ''mime_type'' JNull)
     then [text_block (''Here is the image you requested to see: '' @ [CHR 0x27]
                       @ format_value L (dict_get d ''file_path'' (JStr ''unknown file'')) @ [CHR 0x27]),
           image_block [(''url'', JStr (''data:'' @ format_value L (dict_get d ''mime_type'' JNull)
                                        @ '';base64,'' @ format_value L (dict_get d ''base64'' JNull)))]]
     else [], True)"
  using assms by (simp add: image_context_blocks_def Let_def)

text \<open>
  C10, as the code has it. If the query for the latest \<^verbatim>\<open>image_context\<close> message of the
  thread returns the row \<open>r\<close>, and the content of \<open>r\<close> is a dict or a string that parses
  to a dict, then \<^verbatim>\<open>build_temporary_message\<close> leaves the store without the rows of that
  message id (so without \<open>r\<close>), whether or not the content has \<^verbatim>\<open>base64\<close> and
  \<^verbatim>\<open>mime_type\<close>; when one of them is missing or falsy, no block was made from the row.
\<close>

theorem image_context_row_deleted:
  assumes "select_latest rows tid [''image_context''] = Some r"
    and "dict_or_loads L (row_content r) = Some (JObj d)"
  shows "snd (build_temporary_message L tid mn rows) = delete_message rows (message_id r)
       \<and> r \<notin> set (snd (build_temporary_message L tid mn rows))
       \<and> (\<not> (truthy (dict_get d ''base64'' JNull) \<and> truthy (dict_get d ''mime_type'' JNull))
            \<longrightarrow> fst (image_context_blocks L (row_content r)) = [])"
proof -
  have "snd (build_temporary_message L tid mn rows) = delete_message rows (message_id r)"
    using assms(1) image_context_blocks_dict [OF assms(2)]
    by (simp add: build_temporary_message_def Let_def split: prod.splits)
  then show ?thesis
    using image_context_blocks_dict [OF assms(2)] by (simp add: delete_message_def)
qed

theorem image_context_row_deleted_witness:
  "select_latest [user_hello, image_request] ''t1'' [''image_context''] = Some image_request
   \<and> dict_or_loads example_pylib (row_content image_request) = Some (JObj [(''file_path'', JStr ''a.png'')])
   \<and> \<not> truthy (dict_get [(''file_path'', JStr ''a.png'')] ''base64'' JNull)
   \<and> snd (build_temporary_message example_pylib ''t1'' ''openai/gpt-5-mini'' [user_hello, image_request])
       = [user_hello]
   \<and> fst (image_context_blocks example_pylib (row_content image_request)) = []"
proof -
  have q: "select_latest [user_hello, image_request] ''t1'' [''image_context''] = Some image_request"
    by (simp add: select_latest_def user_hello_def image_request_def)
  have p: "dict_or_loads example_pylib (row_content image_request)
             = Some (JObj [(''file_path'', JStr ''a.png'')])"
    by (simp add: dict_or_loads_def image_request_def example_pylib_def example_loads_def)
  from image_context_row_deleted [OF q p, of "''openai/gpt-5-mini''"] q p
  show ?thesis
    by (simp add: delete_message_def dict_get_def user_hello_def image_request_def)
qed

text \<open>
  The claim as worded fails on a content that parses as JSON to something other than an
  object: the text \<^verbatim>\<open>[]\<close> parses to the empty list, \<^verbatim>\<open>.get\<close> raises on it, and the row
  stays in the store.
\<close>

theorem image_context_list_counterexample:
  "select_latest [user_hello, image_request_list] ''t1'' [''image_context''] = Some image_request_list
   \<and> row_content image_request_list = JStr ''[]''
   \<and> json_loads example_pylib ''[]'' = Some (JList [])
   \<and> snd (build_temporary_message example_pylib ''t1'' ''openai/gpt-5-mini''
            [user_hello, image_request_list])
       = [user_hello, image_request_list]"
  by (simp add: select_latest_def user_hello_def image_request_list_def build_temporary_message_def
      image_context_blocks_def dict_or_loads_def example_pylib_def example_loads_def)

subsection \<open>The system prompt\<close>

lemma base_content_default:
  assumes "builder \<noteq> Some True"
    and "\<not> (\<exists>ac. ac_opt = Some ac \<and> truthy (dict_get ac ''system_prompt'' JNull))"
  shows "base_content P mn ac_opt builder = Inr (default_system_content P mn)"
  using assms by (auto simp: base_content_def split: option.splits)

lemma base_content_not_default:
  assumes "builder = Some True \<or> (\<exists>ac. ac_opt = Some ac \<and> truthy (dict_get ac ''system_prompt'' JNull))"
  shows "base_content P mn ac_opt builder = base_content P mn' ac_opt builder"
  using assms by (auto simp: base_content_def dict_get_def split: option.splits)

text \<open>
  C7, as the code has it. For a model name that does not contain \<^verbatim>\<open>anthropic\<close>
  (case-insensitive), the sample block is appended to the default prompt only. When the
  default prompt is the base (no agent-builder mode and no truthy custom
  \<^verbatim>\<open>system_prompt\<close>), the returned content is the default prompt, the block
  \<^verbatim>\<open>"\\n\\n <sample_assistant_response>" + sample + "</sample_assistant_response>"\<close>,
  and then the knowledge-base, MCP and date sections. When the agent-builder prompt or a
  custom \<^verbatim>\<open>system_prompt\<close> is the base, the result is the one an Anthropic model
  gets: nothing is appended for the model name.
\<close>

theorem sample_block_on_default_base_only:
  assumes "\<not> sublist ''anthropic'' (lower mn)"
  shows "(builder \<noteq> Some True
          \<and> \<not> (\<exists>ac. ac_opt = Some ac \<and> truthy (dict_get ac ''system_prompt'' JNull)) \<longrightarrow>
            build_system_prompt L P mn ac_opt builder wrapper client =
              Inr (JObj [(''role'', JStr ''system''),
                         (''content'',
                          JStr (get_system_prompt P
                                @ ''\<newline>\<newline> <sample_assistant_response>'' @ sample_response P
                                @ ''</sample_assistant_response>''
                                @ knowledge_base_section client ac_opt
                                @ mcp_section L ac_opt wrapper @ datetime_info P))]))
       \<and> (builder = Some True
          \<or> (\<exists>ac. ac_opt = Some ac \<and> truthy (dict_get ac ''system_prompt'' JNull)) \<longrightarrow>
            build_system_prompt L P mn ac_opt builder wrapper client =
              build_system_prompt L P ''anthropic'' ac_opt builder wrapper client)"
proof (intro conjI impI)
  assume d: "builder \<noteq> Some True
          \<and> \<not> (\<exists>ac. ac_opt = Some ac \<and> truthy (dict_get ac ''system_prompt'' JNull))"
  then have "base_content P mn ac_opt builder = Inr (default_system_content P mn)"
    by (simp add: base_content_default)
  with assms show "build_system_prompt L P mn ac_opt builder wrapper client =
              Inr (JObj [(''role'', JStr ''system''),
                         (''content'',
                          JStr (get_system_prompt P
                                @ ''\<newline>\<newline> <sample_assistant_response>'' @ sample_response P
                                @ ''</sample_assistant_response>''
                                @ knowledge_base_section client ac_opt
                                @ mcp_section L ac_opt wrapper @ datetime_info P))])"
    by (simp add: build_system_prompt_def default_system_content_def sample_block_def contains_sublist)
next
  assume "builder = Some True
          \<or> (\<exists>ac. ac_opt = Some ac \<and> truthy (dict_get ac ''system_prompt'' JNull))"
  from base_content_not_default [OF this, of P mn "''anthropic''"]
  show "build_system_prompt L P mn ac_opt builder wrapper client =
              build_system_prompt L P ''anthropic'' ac_opt builder wrapper client"
    by (simp add: build_system_prompt_def)
qed

lemma not_anthropic: "\<not> sublist ''anthropic'' (lower ''openai/gpt-5-mini'')"
  by (simp add: lower.simps(1,2) lower_char_def char_of_def kelvin_sign_def capital_i_with_dot_def flip: contains_sublist)

theorem sample_block_on_default_base_only_witness:
  "\<not> sublist ''anthropic'' (lower ''openai/gpt-5-mini'')
   \<and> build_system_prompt example_pylib example_prompts ''openai/gpt-5-mini'' None (Some False) None None
     = Inr (JObj [(''role'', JStr ''system''),
                  (''content'',
                   JStr (''You are Suna.\<newline>\<newline> <sample_assistant_response><ask>Which file?</ask></sample_assistant_response>''
                         @ datetime_info example_prompts))])
   \<and> build_system_prompt example_pylib example_prompts ''openai/gpt-5-mini'' None (Some True) None None
     = build_system_prompt example_pylib example_prompts ''anthropic'' None (Some True) None None"
  using sample_block_on_default_base_only [OF not_anthropic,
      of "Some False" None example_pylib example_prompts None None]
    sample_block_on_default_base_only [OF not_anthropic,
      of "Some True" None example_pylib example_prompts None None]
    not_anthropic
  by (simp add: example_prompts_def knowledge_base_section_def mcp_section_def)

text \<open>
  The claim as worded fails when a custom \<^verbatim>\<open>system_prompt\<close> or the agent-builder
  prompt is the base: for the model \<^verbatim>\<open>openai/gpt-5-mini\<close> the returned content is the
  base followed by the date section, and the sample block does not occur in it.
\<close>

theorem sample_block_dropped_counterexample:
  "\<not> sublist ''anthropic'' (lower ''openai/gpt-5-mini'')
   \<and> build_system_prompt example_pylib example_prompts ''openai/gpt-5-mini''
       (Some [(''system_prompt'', JStr ''Be brief.'')]) None None None
     = Inr (JObj [(''role'', JStr ''system''),
                  (''content'', JStr (''Be brief.'' @ datetime_info example_prompts))])
   \<and> \<not> sublist (sample_block example_prompts) (''Be brief.'' @ datetime_info example_prompts)
   \<and> build_system_prompt example_pylib example_prompts ''openai/gpt-5-mini'' None (Some True) None None
     = Inr (JObj [(''role'', JStr ''system''),
                  (''content'', JStr (''You are an agent builder.'' @ datetime_info example_prompts))])
   \<and> \<not> sublist (sample_block example_prompts)
         (''You are an agent builder.'' @ datetime_info example_prompts)"
proof (intro conjI)
  show "\<not> sublist ''anthropic'' (lower ''openai/gpt-5-mini'')"
    by (rule not_anthropic)
  show "build_system_prompt example_pylib example_prompts ''openai/gpt-5-mini''
       (Some [(''system_prompt'', JStr ''Be brief.'')]) None None None
     = Inr (JObj [(''role'', JStr ''system''),
                  (''content'', JStr (''Be brief.'' @ datetime_info example_prompts))])"
    by (simp add: build_system_prompt_def base_content_def dict_get_def strip_def white_space_def
        knowledge_base_section_def mcp_section_def)
  show "\<not> sublist (sample_block example_prompts) (''Be brief.'' @ datetime_info example_prompts)"
    by (simp add: sample_block_def datetime_info_def example_prompts_def flip: contains_sublist)
  show "build_system_prompt example_pylib example_prompts ''openai/gpt-5-mini'' None (Some True) None None
     = Inr (JObj [(''role'', JStr ''system''),
                  (''content'', JStr (''You are an agent builder.'' @ datetime_info example_prompts))])"
    by (simp add: build_system_prompt_def base_content_def example_prompts_def
        knowledge_base_section_def mcp_section_def)
  show "\<not> sublist (sample_block example_prompts)
         (''You are an agent builder.'' @ datetime_info example_prompts)"
    by (simp add: sample_block_def datetime_info_def example_prompts_def flip: contains_sublist)
qed

subsection \<open>The configuration record\<close>

lemma setup_runner_config:
  "config (fst (setup_runner S r)) =
     (config r)\<lparr>trace := (case trace (config r) of
                            None \<Rightarrow> Some (langfuse_trace S (thread_id (config r)) (project_id (config r)))
                          | Some t \<Rightarrow> Some t)\<rparr>"
  by (simp add: setup_runner_def Let_def split: option.splits list.splits json.splits)

lemma setup_tools_config: "config (fst (setup_tools S h r)) = config r"
  by (simp add: setup_tools_def Let_def split: option.splits)

lemma setup_mcp_tools_config: "config (fst (snd (setup_mcp_tools L S h r))) = config r"
  by (simp add: setup_mcp_tools_def split: option.splits prod.splits)

lemma run_config:
  "config (fst (snd (run L S P C h rows r))) = config (fst (setup_runner S r))"
proof -
  obtain r1 e1 where s1: "setup_runner S r = (r1, e1)" by (cases "setup_runner S r")
  obtain r2 e2 where s2: "setup_tools S h r1 = (r2, e2)" by (cases "setup_tools S h r1")
  obtain h3 r3 res where s3: "setup_mcp_tools L S h r2 = (h3, r3, res)"
    by (cases "setup_mcp_tools L S h r2")
  have c2: "config r2 = config r1" using setup_tools_config [of S h r1] s2 by simp
  have c3: "config r3 = config r2" using setup_mcp_tools_config [of L S h r2] s3 by simp
  show ?thesis
    using s1 s2 s3 c2 c3
    by (simp add: run_def split: option.splits sum.splits)
qed

text \<open>
  C8, as the code has it. \<^verbatim>\<open>setup\<close> leaves the configuration record as it was built
  except for the field \<open>trace\<close>: when no trace was supplied it is assigned the trace that
  \<^verbatim>\<open>langfuse.trace\<close> returns, and a supplied trace is kept. \<^verbatim>\<open>setup_tools\<close> and
  \<^verbatim>\<open>setup_mcp_tools\<close> leave the record as it is (the latter may update, in the object
  store, the dict that the field \<open>agent_config\<close> refers to; the field keeps referring to
  the same object). The loop reads the record and has no way to assign to it
  (\<open>run_loop\<close> takes it as an argument and returns the loop state only), so after a
  whole run, however it ends, the record is the one \<^verbatim>\<open>setup\<close> left.
\<close>

theorem agent_config_frame:
  "config (fst (setup_runner S r)) =
     (config r)\<lparr>trace := (case trace (config r) of
                            None \<Rightarrow> Some (langfuse_trace S (thread_id (config r)) (project_id (config r)))
                          | Some t \<Rightarrow> Some t)\<rparr>
   \<and> config (fst (setup_tools S h r)) = config r
   \<and> config (fst (snd (setup_mcp_tools L S h r))) = config r
   \<and> config (fst (snd (run L S P C h rows r))) =
     (config r)\<lparr>trace := (case trace (config r) of
                            None \<Rightarrow> Some (langfuse_trace S (thread_id (config r)) (project_id (config r)))
                          | Some t \<Rightarrow> Some t)\<rparr>"
  by (simp add: run_config setup_runner_config setup_tools_config setup_mcp_tools_config)

theorem agent_config_frame_witness:
  "config (fst (snd (run example_pylib example_services example_prompts relaying (\<lambda>a. [])
                      [user_hello] example_runner)))
     = example_config\<lparr>trace := Some 7\<rparr>
   \<and> config (fst (snd (run example_pylib example_services example_prompts relaying (\<lambda>a. [])
                      [user_hello] (example_runner\<lparr>config := example_config\<lparr>trace := Some 3\<rparr>\<rparr>))))
     = example_config\<lparr>trace := Some 3\<rparr>"
  using agent_config_frame [of example_services example_runner "\<lambda>a. []" example_pylib
      example_prompts relaying "[user_hello]"]
    agent_config_frame [of example_services "example_runner\<lparr>config := example_config\<lparr>trace := Some 3\<rparr>\<rparr>"
      "\<lambda>a. []" example_pylib example_prompts relaying "[user_hello]"]
  by (simp add: example_runner_def example_config_def example_services_def)

text \<open>
  The claim as worded fails at \<^verbatim>\<open>setup\<close>: a configuration built without a trace has one
  after it.
\<close>

theorem trace_assigned_counterexample:
  "trace (config example_runner) = None
   \<and> trace (config (fst (setup_runner example_services example_runner))) = Some 7
   \<and> config (fst (setup_runner example_services example_runner)) \<noteq> config example_runner"
  by (simp add: setup_runner_def example_runner_def example_config_def example_services_def
      Let_def dict_get_def)

subsection \<open>Further scenarios of the specification\<close>

text \<open>
  The qualified names derived for custom MCP entries: the name \<^verbatim>\<open>My Cool Tool\<close> of
  type \<^verbatim>\<open>sse\<close> gives \<^verbatim>\<open>custom_sse_my_cool_tool\<close>, and of type \<^verbatim>\<open>composio\<close>
  with no qualified name of its own gives \<^verbatim>\<open>composio.my_cool_tool\<close>.
\<close>

lemma qualified_name_sse:
  "generic_descriptor L (JStr ''sse'') [(''name'', JStr ''My Cool Tool''), (''config'', JObj [])] =
     Inr (JObj [(''name'', JStr ''My Cool Tool''),
                (''qualifiedName'', JStr ''custom_sse_my_cool_tool''),
                (''config'', JObj []),
                (''enabledTools'', JList []),
                (''instructions'', JStr []),
                (''isCustom'', JBool True),
                (''customType'', JStr ''sse'')])"
  by (simp add: generic_descriptor_def slug_def lower.simps(1,2) lower_char_def char_of_def kelvin_sign_def capital_i_with_dot_def dict_get_def
      format_value_def)

lemma qualified_name_composio:
  "composio_descriptor [(''name'', JStr ''My Cool Tool''), (''type'', JStr ''composio'')] =
     Inr (JObj [(''name'', JStr ''My Cool Tool''),
                (''qualifiedName'', JStr ''composio.my_cool_tool''),
                (''config'', JObj []),
                (''enabledTools'', JList []),
                (''instructions'', JStr []),
                (''isCustom'', JBool True),
                (''customType'', JStr ''composio'')])"
  by (simp add: composio_descriptor_def slug_def lower.simps(1,2) lower_char_def char_of_def kelvin_sign_def capital_i_with_dot_def dict_get_def)

text \<open>
  With no \<^verbatim>\<open>browser_state\<close> and no \<^verbatim>\<open>image_context\<close> message there is no temporary
  message, and the store is left as it is.
\<close>

lemma no_temporary_message:
  assumes "select_latest rows tid [''browser_state''] = None"
    and "select_latest rows tid [''image_context''] = None"
  shows "build_temporary_message L tid mn rows = (None, rows)"
  using assms by (simp add: build_temporary_message_def)

text \<open>A Pipedream entry with no \<^verbatim>\<open>config\<close> is given an empty one in place.\<close>

lemma pipedream_entry_updated_in_place:
  "fst (normalize_custom_mcp L S account
          (JObj [(''name'', JStr ''pd''), (''type'', JStr ''pipedream'')]))
   = JObj [(''name'', JStr ''pd''), (''type'', JStr ''pipedream''), (''config'', JObj [])]"
  by (simp add: normalize_custom_mcp_def dict_get_def surface_app_slug_def Let_def)

end
